theory Spec2Isabelle
  imports Complex_Main
begin

section \<open>Python values, exceptions and numpy helpers\<close>

text \<open>
  The development embeds the numerical core of \<^verbatim>\<open>halotools\<close>:
  \<^verbatim>\<open>halo_occupation.py\<close> (occupation and quenching models) and
  \<^verbatim>\<open>halo_profile_components.py\<close> (NFW radial profile).
  Python floats and numpy \<^verbatim>\<open>float64\<close> arrays are modelled by \<^typ>\<open>real\<close> and
  \<^typ>\<open>real list\<close>: the theorems are about the real-valued functions the code denotes,
  not about rounding. Exceptions are values of type \<open>error\<close>, carrying the exception
  class and the message of the source.
\<close>

datatype error =
    TypeError string
  | KeyError string
  | ValueError string
  | LinAlgError string

text \<open>The Python values an argument of the modelled functions can be bound to.\<close>

datatype py_value =
    PyNone
  | PyInt int
  | PyFloat real
  | PyStr string
  | Ndarray "real list"

text \<open>Sequencing of computations that may raise.\<close>

fun and_then :: "error + 'a \<Rightarrow> ('a \<Rightarrow> error + 'b) \<Rightarrow> error + 'b" where
  "and_then (Inl e) f = Inl e"
| "and_then (Inr x) f = f x"

text \<open>\<^verbatim>\<open>d[k]\<close> on a Python dict: a missing key raises \<^verbatim>\<open>KeyError\<close>.\<close>

definition getitem :: "(string \<rightharpoonup> 'v) \<Rightarrow> string \<Rightarrow> error + 'v" where
  "getitem d k = (case d k of None \<Rightarrow> Inl (KeyError k) | Some v \<Rightarrow> Inr v)"

text \<open>\<^verbatim>\<open>a[mask]\<close> for a boolean mask of the length of \<^verbatim>\<open>a\<close>.\<close>

definition mask_select :: "'a list \<Rightarrow> bool list \<Rightarrow> 'a list" where
  "mask_select xs bs = map fst (filter snd (zip xs bs))"

text \<open>
  \<^verbatim>\<open>a[mask] = vs\<close>: the values are written, in order, to the positions where the mask is
  true. \<open>mask_put\<close> is the copy loop; \<open>mask_assign\<close> adds numpy's shape check (a single
  value is broadcast, any other length mismatch raises \<^verbatim>\<open>ValueError\<close>).
\<close>

fun mask_put :: "'a list \<Rightarrow> bool list \<Rightarrow> 'a list \<Rightarrow> 'a list" where
  "mask_put [] bs vs = []"
| "mask_put (x # xs) [] vs = x # xs"
| "mask_put (x # xs) (False # bs) vs = x # mask_put xs bs vs"
| "mask_put (x # xs) (True # bs) [] = x # xs"
| "mask_put (x # xs) (True # bs) (v # vs) = v # mask_put xs bs vs"

definition mask_assign :: "'a list \<Rightarrow> bool list \<Rightarrow> 'a list \<Rightarrow> error + 'a list" where
  "mask_assign xs bs vs =
     (let n = length (filter id bs) in
      if length vs = n then Inr (mask_put xs bs vs)
      else if length vs = 1 then Inr (mask_put xs bs (replicate n (hd vs)))
      else Inl (ValueError ''NumPy boolean array indexing assignment cannot assign input values to the output values where the mask is true''))"

text \<open>\<^verbatim>\<open>np.arange(start, stop, step)\<close> for a positive step.\<close>

definition np_arange :: "real \<Rightarrow> real \<Rightarrow> real \<Rightarrow> real list" where
  "np_arange start stop step =
     map (\<lambda>i. start + real i * step) [0 ..< nat \<lceil>(stop - start) / step\<rceil>]"

text \<open>\<^verbatim>\<open>np.where(a == v)[0]\<close>: the indices at which the array equals the value.\<close>

definition np_where_eq :: "real list \<Rightarrow> real \<Rightarrow> nat list" where
  "np_where_eq a v = filter (\<lambda>i. a ! i = v) [0 ..< length a]"

section \<open>Occupation model: \<^verbatim>\<open>Zheng07_HOD_Model\<close>\<close>

text \<open>\<^verbatim>\<open>anatoly_concentration(logM)\<close>.\<close>

definition anatoly_concentration :: "real list \<Rightarrow> real list" where
  "anatoly_concentration logM =
     (let masses = map (\<lambda>x. 0 + 10 powr x) logM;
          c0 = 9.6;
          Mpiv = 1000000000000;
          a = - 0.075
      in map (\<lambda>m. c0 * (m / Mpiv) powr a) masses)"

text \<open>
  The instance state. \<open>threshold\<close> is the attribute set by \<^verbatim>\<open>published_parameters\<close>; it
  does not exist (\<open>None\<close>) when the parameters were supplied by the caller.
\<close>

record Zheng07_HOD_Model =
  hod_model_nickname :: string
  publication :: string
  parameter_dict :: "string \<rightharpoonup> real"
  threshold :: "real option"

text \<open>
  \<^verbatim>\<open>mean_ncen\<close>. The error function \<^verbatim>\<open>scipy.special.erf\<close> is a library function
  outside the repository; it is the parameter \<open>erf\<close>.
\<close>

definition mean_ncen ::
  "(real \<Rightarrow> real) \<Rightarrow> Zheng07_HOD_Model \<Rightarrow> py_value \<Rightarrow> error + real list" where
  "mean_ncen erf self logM =
     (case logM of
        Ndarray xs \<Rightarrow>
          and_then (getitem (parameter_dict self) ''logMmin_cen'') (\<lambda>logMmin_cen.
          and_then (getitem (parameter_dict self) ''sigma_logM'') (\<lambda>sigma_logM.
          Inr (map (\<lambda>x. 0.5 * (1.0 + erf ((x - logMmin_cen) / sigma_logM))) xs)))
      | _ \<Rightarrow> Inl (TypeError ''Input logM to mean_ncen must be a numpy array''))"

text \<open>\<^verbatim>\<open>mean_nsat\<close>, with the masked assignment of the source.\<close>

definition mean_nsat ::
  "(real \<Rightarrow> real) \<Rightarrow> Zheng07_HOD_Model \<Rightarrow> py_value \<Rightarrow> error + real list" where
  "mean_nsat erf self logM =
     (case logM of
        Ndarray xs \<Rightarrow>
          (let halo_mass = map (\<lambda>x. 10 powr x) xs in
           and_then (getitem (parameter_dict self) ''logM0_sat'') (\<lambda>logM0_sat.
           and_then (getitem (parameter_dict self) ''logM1_sat'') (\<lambda>logM1_sat.
           (let M0 = 10 powr logM0_sat;
                M1 = 10 powr logM1_sat;
                zeros = replicate (length xs) 0;
                idx_nonzero_satellites = map (\<lambda>m. m - M0 > 0) halo_mass
            in
            and_then (mean_ncen erf self (Ndarray (mask_select xs idx_nonzero_satellites))) (\<lambda>ncen.
            and_then (getitem (parameter_dict self) ''alpha_sat'') (\<lambda>alpha_sat.
            mask_assign zeros idx_nonzero_satellites
              (map2 (\<lambda>nc m. nc * ((m - M0) / M1) powr alpha_sat) ncen
                 (mask_select halo_mass idx_nonzero_satellites))))))))
      | _ \<Rightarrow> Inl (TypeError ''Input logM to mean_ncen must be a numpy array''))"

definition mean_concentration :: "Zheng07_HOD_Model \<Rightarrow> real list \<Rightarrow> real list" where
  "mean_concentration self logM = anatoly_concentration logM"

text \<open>Table 1 of Zheng et al. 2007, as the lists of \<^verbatim>\<open>published_parameters\<close>.\<close>

definition logMmin_cen_array :: "real list" where
  "logMmin_cen_array = [11.35, 11.46, 11.6, 11.75, 12.02, 12.3, 12.79, 13.38, 14.22]"

definition sigma_logM_array :: "real list" where
  "sigma_logM_array = [0.25, 0.24, 0.26, 0.28, 0.26, 0.21, 0.39, 0.51, 0.77]"

definition logM0_array :: "real list" where
  "logM0_array = [11.2, 10.59, 11.49, 11.69, 11.38, 11.84, 11.92, 13.94, 14.0]"

definition logM1_array :: "real list" where
  "logM1_array = [12.4, 12.68, 12.83, 13.01, 13.31, 13.58, 13.94, 13.91, 14.69]"

definition alpha_sat_array :: "real list" where
  "alpha_sat_array = [0.83, 0.97, 1.02, 1.06, 1.06, 1.12, 1.15, 1.04, 0.87]"

definition threshold_array :: "real list" where
  "threshold_array = rev (np_arange (- 22) (- 17.5) 0.5)"

text \<open>
  \<^verbatim>\<open>published_parameters(threshold)\<close>. The result is the list of warnings emitted, and
  either the exception raised or the value of \<^verbatim>\<open>self.threshold\<close> together with the
  parameter dictionary returned.
\<close>

definition published_parameters ::
  "py_value \<Rightarrow> string list \<times> (error + real \<times> (string \<rightharpoonup> real))" where
  "published_parameters thr =
     (let (warnings, self_threshold) =
            (case thr of
               PyNone \<Rightarrow> ([''HOD threshold unspecified: setting to -19.5''], Inr (- 19.5))
             | PyInt n \<Rightarrow> ([], Inr (real_of_int n))
             | PyFloat x \<Rightarrow> ([], Inr x)
             | _ \<Rightarrow> ([], Inl (TypeError ''Input luminosity threshold must be a scalar'')))
      in
      (warnings,
       and_then self_threshold (\<lambda>t.
         (let threshold_index = np_where_eq threshold_array t in
          if length threshold_index = 1 then
            Inr (t,
              [''logMmin_cen'' \<mapsto> logMmin_cen_array ! (threshold_index ! 0),
               ''sigma_logM'' \<mapsto> sigma_logM_array ! (threshold_index ! 0),
               ''logM0_sat'' \<mapsto> logM0_array ! (threshold_index ! 0),
               ''logM1_sat'' \<mapsto> logM1_array ! (threshold_index ! 0),
               ''alpha_sat'' \<mapsto> alpha_sat_array ! (threshold_index ! 0),
               ''fconc'' \<mapsto> 1.0])
          else
            Inl (TypeError ''Input luminosity threshold does not match any of the Table 1 values of Zheng et al. 2007.'')))))"

text \<open>
  \<^verbatim>\<open>Zheng07_HOD_Model.__init__(parameter_dict, threshold)\<close>: the warnings emitted and
  either the exception that aborts the construction or the instance.
\<close>

definition Zheng07_init ::
  "(string \<rightharpoonup> real) option \<Rightarrow> py_value \<Rightarrow> string list \<times> (error + Zheng07_HOD_Model)" where
  "Zheng07_init pd thr =
     (case pd of
        None \<Rightarrow>
          (let (warnings, r) = published_parameters thr in
           (warnings,
            and_then r (\<lambda>(t, d).
              Inr \<lparr> hod_model_nickname = ''Zheng07'', publication = ''arXiv:0703457'',
                    parameter_dict = d, threshold = Some t \<rparr>)))
      | Some d \<Rightarrow>
          ([], Inr \<lparr> hod_model_nickname = ''Zheng07'', publication = ''arXiv:0703457'',
                     parameter_dict = d, threshold = None \<rparr>))"

text \<open>The other implementation of the NFW cumulative mass fraction, \<^verbatim>\<open>cumulative_NFW_PDF(x, c)\<close>.\<close>

definition cumulative_NFW_PDF :: "real \<Rightarrow> real \<Rightarrow> real" where
  "cumulative_NFW_PDF x c =
     (let norm = ln (1 + c) - c / (1 + c)
      in (ln (1 + x * c) - x * c / (1 + x * c)) / norm)"

section \<open>Quenching model: \<^verbatim>\<open>vdB03_Quenching_Model\<close>\<close>

text \<open>
  The instance state. The attributes \<^verbatim>\<open>publication\<close> and \<^verbatim>\<open>parameter_dict\<close> carry the
  prefix \<open>quenching_\<close> here, since the occupation model has fields of the same names; the
  values of this parameter dictionary are arrays.
\<close>

record vdB03_Quenching_Model =
  quenching_model_nickname :: string
  quenching_publication :: string
  quenching_parameter_dict :: "string \<rightharpoonup> real list"
  central_quenching_polynomial_coefficients :: "real list"
  satellite_quenching_polynomial_coefficients :: "real list"

text \<open>
  \<^verbatim>\<open>quenching_polynomial(logM, coefficients)\<close>: the accumulation loop over
  \<^verbatim>\<open>enumerate(coefficients)\<close>, then the two masked assignments that clamp the result.
  The lookup of \<^verbatim>\<open>'logM_abcissa'\<close> is the one the source makes for the unused
  \<^verbatim>\<open>polynomial_degree\<close>.
\<close>

definition quenching_polynomial ::
  "vdB03_Quenching_Model \<Rightarrow> real list \<Rightarrow> real list \<Rightarrow> error + real list" where
  "quenching_polynomial self logM coefficients =
     (let zeros = replicate (length logM) 0 in
      and_then (getitem (quenching_parameter_dict self) ''logM_abcissa'') (\<lambda>abcissa.
      (let polynomial_degree = length abcissa;
           mean_quenched_fractions =
             fold (\<lambda>(n, coeff) acc. map2 (\<lambda>a x. a + coeff * x ^ n) acc logM)
               (enumerate 0 coefficients) zeros;
           test_negative = map (\<lambda>v. v < 0) mean_quenched_fractions
       in
       and_then (mask_assign mean_quenched_fractions test_negative
                   (replicate (length (filter id test_negative)) 0)) (\<lambda>fractions1.
       (let test_exceeds_unity = map (\<lambda>v. v > 1) fractions1
        in mask_assign fractions1 test_exceeds_unity
             (replicate (length (filter id test_exceeds_unity)) 1))))))"

definition mean_quenched_fraction_centrals ::
  "vdB03_Quenching_Model \<Rightarrow> real list \<Rightarrow> error + real list" where
  "mean_quenched_fraction_centrals self logM =
     (let coefficients = central_quenching_polynomial_coefficients self
      in quenching_polynomial self logM coefficients)"

definition mean_quenched_fraction_satellites ::
  "vdB03_Quenching_Model \<Rightarrow> real list \<Rightarrow> error + real list" where
  "mean_quenched_fraction_satellites self logM =
     (let coefficients = satellite_quenching_polynomial_coefficients self
      in quenching_polynomial self logM coefficients)"

text \<open>\<^verbatim>\<open>a.reshape(r, c)\<close> of a flat array, and \<^verbatim>\<open>m.transpose()\<close> of a two-dimensional one.\<close>

definition reshape :: "'a list \<Rightarrow> nat \<Rightarrow> nat \<Rightarrow> error + 'a list list" where
  "reshape a r c =
     (if length a = r * c then Inr (map (\<lambda>i. take c (drop (i * c) a)) [0 ..< r])
      else Inl (ValueError ''cannot reshape array''))"

definition ndarray_transpose :: "'a list list \<Rightarrow> 'a list list" where
  "ndarray_transpose m =
     (case m of [] \<Rightarrow> [] | r # _ \<Rightarrow> map (\<lambda>j. map (\<lambda>row. row ! j) m) [0 ..< length r])"

text \<open>
  The matrix assembled by \<^verbatim>\<open>solve_for_quenching_polynomial_coefficients\<close>: the flat
  array grown by \<^verbatim>\<open>np.append\<close>, reshaped and transposed.
\<close>

definition quenching_model_matrix :: "real list \<Rightarrow> error + real list list" where
  "quenching_model_matrix logM_abcissa =
     (let ones = map (\<lambda>z. z + 1) (replicate (length logM_abcissa) 0);
          columns = fold (\<lambda>i columns. columns @ map (\<lambda>x. x ^ (i + 1)) logM_abcissa)
                      [0 ..< length logM_abcissa - 1] ones
      in and_then (reshape columns (length logM_abcissa) (length logM_abcissa))
           (\<lambda>m. Inr (ndarray_transpose m)))"

text \<open>
  \<^verbatim>\<open>solve_for_quenching_polynomial_coefficients\<close>. \<^verbatim>\<open>np.linalg.solve\<close> is a library
  function outside the repository; it is the parameter \<open>solve\<close>.
\<close>

definition solve_for_quenching_polynomial_coefficients ::
  "(real list list \<Rightarrow> real list \<Rightarrow> error + real list) \<Rightarrow> real list \<Rightarrow> real list
     \<Rightarrow> error + real list" where
  "solve_for_quenching_polynomial_coefficients solve logM_abcissa quenched_fractions =
     and_then (quenching_model_matrix logM_abcissa)
       (\<lambda>m. solve m quenched_fractions)"

text \<open>
  \<^verbatim>\<open>vdB03_Quenching_Model.__init__(parameter_dict)\<close>. The module \<^verbatim>\<open>defaults\<close> is not
  part of the sources; its \<^verbatim>\<open>default_quenching_parameters\<close> is a parameter.
\<close>

definition vdB03_init ::
  "(real list list \<Rightarrow> real list \<Rightarrow> error + real list) \<Rightarrow> (string \<rightharpoonup> real list)
     \<Rightarrow> (string \<rightharpoonup> real list) option \<Rightarrow> error + vdB03_Quenching_Model" where
  "vdB03_init solve default_quenching_parameters pd =
     (let d = (case pd of None \<Rightarrow> default_quenching_parameters | Some d \<Rightarrow> d) in
      and_then (getitem d ''logM_abcissa'') (\<lambda>abcissa.
      and_then (getitem d ''central_ordinates'') (\<lambda>central_ordinates.
      and_then (solve_for_quenching_polynomial_coefficients solve abcissa central_ordinates)
        (\<lambda>central.
      and_then (getitem d ''logM_abcissa'') (\<lambda>abcissa2.
      and_then (getitem d ''satellite_ordinates'') (\<lambda>satellite_ordinates.
      and_then (solve_for_quenching_polynomial_coefficients solve abcissa2 satellite_ordinates)
        (\<lambda>satellite.
      Inr \<lparr> quenching_model_nickname = ''vdB03'',
            quenching_publication = ''arXiv:0210495v3'',
            quenching_parameter_dict = d,
            central_quenching_polynomial_coefficients = central,
            satellite_quenching_polynomial_coefficients = satellite \<rparr>)))))))"

text \<open>
  What \<^verbatim>\<open>np.linalg.solve(a, b)\<close> is documented to do, in exact arithmetic: it returns
  the solution of \<open>a x = b\<close> when \<open>a\<close> is non-singular and raises \<^verbatim>\<open>LinAlgError\<close>
  when \<open>a\<close> is singular. \<open>singular\<close> says that a non-zero vector is mapped to zero.
\<close>

definition mat_vec :: "real list list \<Rightarrow> real list \<Rightarrow> real list" where
  "mat_vec a x = map (\<lambda>row. sum_list (map2 (*) row x)) a"

definition singular :: "real list list \<Rightarrow> bool" where
  "singular a = (\<exists>v. length v = length a \<and> v \<noteq> replicate (length a) 0
                    \<and> mat_vec a v = replicate (length a) 0)"

definition linalg_solve_contract ::
  "(real list list \<Rightarrow> real list \<Rightarrow> error + real list) \<Rightarrow> real list list \<Rightarrow> real list \<Rightarrow> bool"
  where
  "linalg_solve_contract solve a b =
     (if singular a then solve a b = Inl (LinAlgError ''Singular matrix'')
      else (\<exists>x. solve a b = Inr x \<and> length x = length a \<and> mat_vec a x = b))"

text \<open>
  A solver for two equations in two unknowns (Cramer's rule), which meets the contract on
  such systems; it instantiates \<open>solve\<close> in the examples.
\<close>

definition cramer2 :: "real list list \<Rightarrow> real list \<Rightarrow> error + real list" where
  "cramer2 a b =
     (case (a, b) of
        ([[a11, a12], [a21, a22]], [b1, b2]) \<Rightarrow>
          (let d = a11 * a22 - a12 * a21 in
           if d = 0 then Inl (LinAlgError ''Singular matrix'')
           else Inr [(b1 * a22 - a12 * b2) / d, (a11 * b2 - b1 * a21) / d])
      | _ \<Rightarrow> Inl (LinAlgError ''Last 2 dimensions of the array must be square''))"

text \<open>Polynomials as coefficient lists, lowest degree first, used to reason about the matrix.\<close>

fun horner :: "real list \<Rightarrow> real \<Rightarrow> real" where
  "horner [] x = 0"
| "horner (c # cs) x = c + x * horner cs x"

text \<open>Division of a polynomial by \<open>X - a\<close>: the quotient.\<close>

fun synthetic_div :: "real \<Rightarrow> real list \<Rightarrow> real list" where
  "synthetic_div a [] = []"
| "synthetic_div a [c] = []"
| "synthetic_div a (c # cs) = horner cs a # synthetic_div a cs"

text \<open>Multiplication of a polynomial by \<open>X - a\<close>.\<close>

fun times_linear :: "real \<Rightarrow> real list \<Rightarrow> real list" where
  "times_linear a [] = []"
| "times_linear a (c # cs) =
     (- a * c) # (case times_linear a cs of [] \<Rightarrow> [c] | r # rs \<Rightarrow> (c + r) # rs)"

section \<open>Radial profile model: \<^verbatim>\<open>HaloProfileModel\<close> and \<^verbatim>\<open>NFWProfile\<close>\<close>

text \<open>
  The cosmology object is an external collaborator. The model keeps what the constructor
  reads: \<^verbatim>\<open>H0\<close>, \<^verbatim>\<open>Om0\<close> and the critical density at a redshift, already converted to
  solar masses per cubic megaparsec.
\<close>

record cosmology =
  H0 :: real
  critical_density_Msun_Mpc3 :: "real \<Rightarrow> real"
  Om0 :: real

record HaloProfileModel =
  delta_vir :: real
  redshift :: real
  profile_cosmology :: cosmology
  cosmic_matter_density :: real

text \<open>
  The instance of \<^verbatim>\<open>NFWProfile\<close>. The two tables exist only after
  \<^verbatim>\<open>build_inv_cumu_lookup_table\<close> has run. \<open>'s\<close> is the type of the spline objects of
  \<^verbatim>\<open>scipy.interpolate.UnivariateSpline\<close>.
\<close>

record 's NFWProfile = HaloProfileModel +
  profile_publication :: "string list"
  cumu_inv_func_table :: "'s list option"
  cumu_inv_conc_table :: "real list option"

text \<open>
  \<^verbatim>\<open>HaloProfileModel.__init__(delta_vir, cosmology, redshift)\<close>. The arguments
  \<^verbatim>\<open>delta_vir\<close> and \<^verbatim>\<open>redshift\<close> may be any Python values: their types are free.
\<close>

definition HaloProfileModel_init :: "'a \<Rightarrow> cosmology \<Rightarrow> 'b \<Rightarrow> HaloProfileModel" where
  "HaloProfileModel_init delta_vir_arg cosmo redshift_arg =
     (let littleh = H0 cosmo / 100.0;
          crit_density = critical_density_Msun_Mpc3 cosmo 0 / littleh ^ 2
      in \<lparr> delta_vir = 360.0, redshift = 0.0, profile_cosmology = cosmo,
            cosmic_matter_density = crit_density * Om0 cosmo \<rparr>)"

text \<open>\<^verbatim>\<open>NFWProfile.g\<close>, \<^verbatim>\<open>rho_s\<close>, \<^verbatim>\<open>density_profile\<close> and \<^verbatim>\<open>cumulative_mass_PDF\<close>.\<close>

definition g :: "real \<Rightarrow> real" where
  "g x = (let denominator = ln (1.0 + x) - (x / (1.0 + x)) in 1 / denominator)"

definition rho_s :: "('s, 'z) NFWProfile_scheme \<Rightarrow> real \<Rightarrow> real" where
  "rho_s self c = (delta_vir self / 3) * c * c * c * g c * cosmic_matter_density self"

definition density_profile :: "('s, 'z) NFWProfile_scheme \<Rightarrow> real \<Rightarrow> real \<Rightarrow> real" where
  "density_profile self r c =
     (let numerator = rho_s self c;
          denominator = (c * r) * (1.0 + c * r) * (1.0 + c * r)
      in numerator / denominator)"

definition cumulative_mass_PDF :: "real \<Rightarrow> real \<Rightarrow> real" where
  "cumulative_mass_PDF r c = g c / g (r * c)"

text \<open>\<^verbatim>\<open>np.linspace(start, stop, num)\<close>.\<close>

definition np_linspace :: "real \<Rightarrow> real \<Rightarrow> nat \<Rightarrow> real list" where
  "np_linspace start stop num =
     (if num = 1 then [start]
      else map (\<lambda>i. start + real i * ((stop - start) / real (num - 1))) [0 ..< num])"

text \<open>
  The constants of the module \<^verbatim>\<open>defaults\<close> read by \<^verbatim>\<open>build_inv_cumu_lookup_table\<close>; the
  module is not part of the sources, so they are parameters.
\<close>

record defaults =
  default_Npts_radius_array :: nat
  default_min_rad :: real
  default_Npts_concen_array :: nat
  min_permitted_conc :: real
  max_permitted_conc :: real

text \<open>
  \<^verbatim>\<open>build_inv_cumu_lookup_table\<close>. \<open>spline x y\<close> stands for the constructor call
  \<^verbatim>\<open>UnivariateSpline(x, y)\<close>: its first argument is the list of cumulative-PDF values,
  its second the radius grid.
\<close>

definition build_inv_cumu_lookup_table ::
  "defaults \<Rightarrow> (real list \<Rightarrow> real list \<Rightarrow> 's) \<Rightarrow> 's NFWProfile \<Rightarrow> 's NFWProfile" where
  "build_inv_cumu_lookup_table dflt spline self =
     (let Npts_radius = default_Npts_radius_array dflt;
          minrad = default_min_rad dflt;
          radius_array = np_linspace minrad 1 Npts_radius;
          Npts_concen = default_Npts_concen_array dflt;
          cmin = min_permitted_conc dflt;
          cmax = max_permitted_conc dflt;
          conc_array = np_linspace cmin cmax Npts_concen;
          cumu_inv_funcs =
            map (\<lambda>c. spline (map (\<lambda>r. cumulative_mass_PDF r c) radius_array) radius_array)
              conc_array
      in self \<lparr> cumu_inv_func_table := Some cumu_inv_funcs,
                cumu_inv_conc_table := Some conc_array \<rparr>)"

text \<open>
  \<^verbatim>\<open>NFWProfile.__init__(delta_vir, cosmology, redshift, build_inv_cumu_table)\<close>. The
  table is built only when the last argument is the Boolean \<^verbatim>\<open>True\<close>.
\<close>

definition NFWProfile_init ::
  "defaults \<Rightarrow> (real list \<Rightarrow> real list \<Rightarrow> 's) \<Rightarrow> 'a \<Rightarrow> cosmology \<Rightarrow> 'b \<Rightarrow> bool
     \<Rightarrow> 's NFWProfile" where
  "NFWProfile_init dflt spline delta_vir_arg cosmo redshift_arg build_inv_cumu_table =
     (let base = HaloProfileModel_init delta_vir_arg cosmo redshift_arg;
          self = HaloProfileModel.extend base
                   (NFWProfile.fields [''arXiv:9611107''] None None)
      in if build_inv_cumu_table then build_inv_cumu_lookup_table dflt spline self else self)"

section \<open>Properties of the occupation model\<close>

lemma mask_select_map: "mask_select (map f xs) bs = map f (mask_select xs bs)"
  unfolding mask_select_def
  by (induction xs arbitrary: bs) (auto simp: zip_Cons1 split: list.splits) 

lemma length_mask_select_map:
  "length (mask_select xs (map c xs)) = length (filter id (map c xs))"
  unfolding mask_select_def by (induction xs) auto

lemma mask_put_select:
  "mask_put (replicate (length xs) z) (map c xs) (map F (mask_select xs (map c xs)))
     = map (\<lambda>x. if c x then F x else z) xs"
proof (induction xs)
  case Nil
  show ?case by simp
next
  case (Cons x xs)
  show ?case
  proof (cases "c x")
    case True
    then show ?thesis using Cons.IH by (simp add: mask_select_def)
  next
    case False
    then show ?thesis using Cons.IH by (simp add: mask_select_def)
  qed
qed

lemma mask_assign_select:
  "mask_assign (replicate (length xs) z) (map c xs) (map F (mask_select xs (map c xs)))
     = Inr (map (\<lambda>x. if c x then F x else z) xs)"
  by (simp add: mask_assign_def Let_def length_mask_select_map mask_put_select)

lemma mean_ncen_Ndarray:
  assumes "parameter_dict self ''logMmin_cen'' = Some a" "parameter_dict self ''sigma_logM'' = Some s"
  shows "mean_ncen erf self (Ndarray xs) = Inr (map (\<lambda>x. 0.5 * (1.0 + erf ((x - a) / s))) xs)"
  using assms by (simp add: mean_ncen_def getitem_def)

lemma mean_nsat_Ndarray:
  assumes "parameter_dict self ''logMmin_cen'' = Some a" "parameter_dict self ''sigma_logM'' = Some s"
    "parameter_dict self ''logM0_sat'' = Some l0" "parameter_dict self ''logM1_sat'' = Some l1"
    "parameter_dict self ''alpha_sat'' = Some al"
  shows "mean_nsat erf self (Ndarray xs) =
     Inr (map (\<lambda>x. if 10 powr x - 10 powr l0 > 0
                   then 0.5 * (1.0 + erf ((x - a) / s)) * ((10 powr x - 10 powr l0) / 10 powr l1) powr al
                   else 0) xs)"
proof -
  let ?c = "\<lambda>x. 10 powr x - 10 powr l0 > 0"
  let ?F = "\<lambda>x. 0.5 * (1.0 + erf ((x - a) / s)) * ((10 powr x - 10 powr l0) / 10 powr l1) powr al"
  have idx: "map (\<lambda>m. m - 10 powr l0 > 0) (map (\<lambda>x. 10 powr x) xs) = map ?c xs"
    by simp
  have vals: "map2 (\<lambda>nc m. nc * ((m - 10 powr l0) / 10 powr l1) powr al)
          (map (\<lambda>x. 0.5 * (1.0 + erf ((x - a) / s))) (mask_select xs (map ?c xs)))
          (mask_select (map (\<lambda>x. 10 powr x) xs) (map ?c xs))
        = map ?F (mask_select xs (map ?c xs))"
    by (simp add: mask_select_map map2_map_map)
  have g: "getitem (parameter_dict self) ''logM0_sat'' = Inr l0"
    "getitem (parameter_dict self) ''logM1_sat'' = Inr l1"
    "getitem (parameter_dict self) ''alpha_sat'' = Inr al"
    using assms by (simp_all add: getitem_def)
  show ?thesis
    by (simp only: mean_nsat_def Let_def py_value.case g and_then.simps
        mean_ncen_Ndarray[OF assms(1,2)] idx length_map vals mask_assign_select)
qed

text \<open>
  Claim C1. With the five parameters present in the parameter set, \<^verbatim>\<open>mean_nsat\<close> returns
  an array of the length of \<open>logM\<close> whose element \<open>i\<close> is 0 where
  \<open>10 powr (logM ! i) - M0 \<le> 0\<close> and otherwise is element \<open>i\<close> of \<^verbatim>\<open>mean_ncen(logM)\<close>
  times \<open>((10 powr (logM ! i) - M0) / M1) powr alpha_sat\<close>, with \<open>M0 = 10 powr logM0_sat\<close> and
  \<open>M1 = 10 powr logM1_sat\<close>. When \<open>erf\<close> stays above \<open>-1\<close>, as the error function does, the
  element is 0 only in the first case.
\<close>

theorem mean_nsat_elementwise:
  assumes "parameter_dict self ''logMmin_cen'' = Some a"
    and "parameter_dict self ''sigma_logM'' = Some s"
    and "parameter_dict self ''logM0_sat'' = Some l0"
    and "parameter_dict self ''logM1_sat'' = Some l1"
    and "parameter_dict self ''alpha_sat'' = Some al"
  shows "\<exists>ys nc. mean_nsat erf self (Ndarray logM) = Inr ys
           \<and> mean_ncen erf self (Ndarray logM) = Inr nc
           \<and> length ys = length logM \<and> length nc = length logM
           \<and> (\<forall>i<length logM.
                 ys ! i = (if 10 powr (logM ! i) - 10 powr l0 \<le> 0 then 0
                           else nc ! i * ((10 powr (logM ! i) - 10 powr l0) / 10 powr l1) powr al))
           \<and> ((\<forall>x. - 1 < erf x) \<longrightarrow>
                 (\<forall>i<length logM. ys ! i = 0 \<longleftrightarrow> 10 powr (logM ! i) - 10 powr l0 \<le> 0))"
proof -
  let ?nc = "map (\<lambda>x. 0.5 * (1.0 + erf ((x - a) / s))) logM"
  let ?ys = "map (\<lambda>x. if 10 powr x - 10 powr l0 > 0
                   then 0.5 * (1.0 + erf ((x - a) / s)) * ((10 powr x - 10 powr l0) / 10 powr l1) powr al
                   else 0) logM"
  have 1: "mean_nsat erf self (Ndarray logM) = Inr ?ys"
    by (rule mean_nsat_Ndarray[OF assms])
  have 2: "mean_ncen erf self (Ndarray logM) = Inr ?nc"
    by (rule mean_ncen_Ndarray[OF assms(1,2)])
  have 3: "\<forall>i<length logM.
       ?ys ! i = (if 10 powr (logM ! i) - 10 powr l0 \<le> 0 then 0
                 else ?nc ! i * ((10 powr (logM ! i) - 10 powr l0) / 10 powr l1) powr al)"
    by (simp add: not_less)
  have 4: "(\<forall>x. - 1 < erf x) \<longrightarrow>
       (\<forall>i<length logM. ?ys ! i = 0 \<longleftrightarrow> 10 powr (logM ! i) - 10 powr l0 \<le> 0)"
  proof (intro impI allI)
    fix i assume e: "\<forall>x. - 1 < erf x" and i: "i < length logM"
    have "0 < 1 + erf ((logM ! i - a) / s)" using e[rule_format, of "(logM ! i - a) / s"] by linarith
    then have nc: "0.5 * (1.0 + erf ((logM ! i - a) / s)) \<noteq> 0" by simp
    show "?ys ! i = 0 \<longleftrightarrow> 10 powr (logM ! i) - 10 powr l0 \<le> 0"
    proof (cases "10 powr (logM ! i) - 10 powr l0 > 0")
      case True
      define B where "B = (10 powr (logM ! i) - 10 powr l0) / 10 powr l1"
      have "0 < B" unfolding B_def using True by (intro divide_pos_pos) simp_all
      then have "B powr al \<noteq> 0" by (metis powr_eq_0_iff less_irrefl)
      with nc have "0.5 * (1.0 + erf ((logM ! i - a) / s)) * B powr al \<noteq> 0"
        by (simp only: mult_eq_0_iff) blast
      with True i show ?thesis by (simp add: B_def del: powr_eq_0_iff mult_eq_0_iff)
    next
      case False
      with i show ?thesis by simp
    qed
  qed
  show ?thesis
    apply (rule exI[of _ ?ys], rule exI[of _ ?nc])
    using 1 2 3 4 by simp
qed

text \<open>
  Claim C8. With \<open>sigma_logM > 0\<close> and an \<open>erf\<close> whose values lie in \<open>[-1, 1]\<close>, every
  element of \<^verbatim>\<open>mean_ncen(logM)\<close> is \<open>0.5 * (1 + erf ((logM ! i - logMmin_cen) / sigma_logM))\<close>
  and lies in the closed interval \<open>[0, 1]\<close>.
\<close>

theorem mean_ncen_unit_interval:
  assumes "\<forall>x. - 1 \<le> erf x \<and> erf x \<le> 1"
    and "parameter_dict self ''logMmin_cen'' = Some a"
    and "parameter_dict self ''sigma_logM'' = Some s"
    and "0 < s"
  shows "\<exists>ys. mean_ncen erf self (Ndarray logM) = Inr ys \<and> length ys = length logM
           \<and> (\<forall>i<length logM.
                 ys ! i = 0.5 * (1 + erf ((logM ! i - a) / s)) \<and> 0 \<le> ys ! i \<and> ys ! i \<le> 1)"
proof -
  let ?ys = "map (\<lambda>x. 0.5 * (1.0 + erf ((x - a) / s))) logM"
  have 1: "mean_ncen erf self (Ndarray logM) = Inr ?ys"
    by (rule mean_ncen_Ndarray[OF assms(2,3)])
  have 2: "\<forall>i<length logM.
      ?ys ! i = 0.5 * (1 + erf ((logM ! i - a) / s)) \<and> 0 \<le> ?ys ! i \<and> ?ys ! i \<le> 1"
  proof (intro allI impI)
    fix i assume i: "i < length logM"
    have "- 1 \<le> erf ((logM ! i - a) / s)" "erf ((logM ! i - a) / s) \<le> 1"
      using assms(1) by blast+
    then show "?ys ! i = 0.5 * (1 + erf ((logM ! i - a) / s)) \<and> 0 \<le> ?ys ! i \<and> ?ys ! i \<le> 1"
      using i by simp
  qed
  show ?thesis
    by (rule exI[of _ ?ys]) (use 1 2 in simp)
qed

lemma threshold_array_eq:
  "threshold_array = [- 18, - 18.5, - 19, - 19.5, - 20, - 20.5, - 21, - 21.5, - 22]"
proof -
  have c: "nat \<lceil>(- 17.5 - (- 22 :: real)) / 0.5\<rceil> = 9" by simp
  have u: "[0 ..< 9] = [0, 1, 2, 3, 4, 5, 6, 7, 8 :: nat]" by (simp add: upt_rec)
  show ?thesis
    unfolding threshold_array_def np_arange_def c u by simp
qed

lemma np_where_eq_threshold_array:
  "np_where_eq threshold_array t =
     filter (\<lambda>i. [- 18, - 18.5, - 19, - 19.5, - 20, - 20.5, - 21, - 21.5, - 22 :: real] ! i = t)
       [0, 1, 2, 3, 4, 5, 6, 7, 8]"
proof -
  have u: "[0 ..< 9] = [0, 1, 2, 3, 4, 5, 6, 7, 8 :: nat]" by (simp add: upt_rec)
  have l: "length [- 18, - 18.5, - 19, - 19.5, - 20, - 20.5, - 21, - 21.5, - 22 :: real] = 9" by simp
  show ?thesis unfolding np_where_eq_def threshold_array_eq l u ..
qed

lemma published_parameters_no_match:
  assumes "t \<notin> {- 18, - 18.5, - 19, - 19.5, - 20, - 20.5, - 21, - 21.5, - 22}"
  shows "np_where_eq threshold_array t = []"
  using assms unfolding np_where_eq_threshold_array by simp

lemma published_parameters_default:
  "t = - 19.5 \<Longrightarrow> np_where_eq threshold_array t = [3]"
  unfolding np_where_eq_threshold_array by simp

text \<open>
  Claim C6. Construction with \<^verbatim>\<open>parameter_dict=None\<close>: for \<^verbatim>\<open>threshold=None\<close> the
  parameters of the threshold \<open>-19.5\<close> are resolved and one warning is emitted; a numeric
  threshold (an int or a float) outside the nine tabulated values fails with the exception
  of the parameter lookup, in particular \<open>-30\<close>; a threshold that is not numeric fails with
  the exception of the type check. Both exceptions are of the Python class
  \<^verbatim>\<open>TypeError\<close> and differ in their message.
\<close>

theorem Zheng07_threshold_resolution:
  "Zheng07_init None PyNone =
     ([''HOD threshold unspecified: setting to -19.5''],
      Inr \<lparr> hod_model_nickname = ''Zheng07'', publication = ''arXiv:0703457'',
            parameter_dict = [''logMmin_cen'' \<mapsto> 11.75, ''sigma_logM'' \<mapsto> 0.28,
              ''logM0_sat'' \<mapsto> 11.69, ''logM1_sat'' \<mapsto> 13.01, ''alpha_sat'' \<mapsto> 1.06,
              ''fconc'' \<mapsto> 1],
            threshold = Some (- 19.5) \<rparr>)
   \<and> snd (Zheng07_init None PyNone) = snd (Zheng07_init None (PyFloat (- 19.5)))
   \<and> (real_of_int n \<notin> {- 18, - 18.5, - 19, - 19.5, - 20, - 20.5, - 21, - 21.5, - 22} \<longrightarrow>
        Zheng07_init None (PyInt n) =
          ([], Inl (TypeError ''Input luminosity threshold does not match any of the Table 1 values of Zheng et al. 2007.'')))
   \<and> (x \<notin> {- 18, - 18.5, - 19, - 19.5, - 20, - 20.5, - 21, - 21.5, - 22} \<longrightarrow>
        Zheng07_init None (PyFloat x) =
          ([], Inl (TypeError ''Input luminosity threshold does not match any of the Table 1 values of Zheng et al. 2007.'')))
   \<and> Zheng07_init None (PyInt (- 30)) =
          ([], Inl (TypeError ''Input luminosity threshold does not match any of the Table 1 values of Zheng et al. 2007.''))
   \<and> Zheng07_init None (PyStr s) =
          ([], Inl (TypeError ''Input luminosity threshold must be a scalar''))
   \<and> Zheng07_init None (Ndarray a) =
          ([], Inl (TypeError ''Input luminosity threshold must be a scalar''))"
proof (intro conjI impI)
  show d: "Zheng07_init None PyNone =
     ([''HOD threshold unspecified: setting to -19.5''],
      Inr \<lparr> hod_model_nickname = ''Zheng07'', publication = ''arXiv:0703457'',
            parameter_dict = [''logMmin_cen'' \<mapsto> 11.75, ''sigma_logM'' \<mapsto> 0.28,
              ''logM0_sat'' \<mapsto> 11.69, ''logM1_sat'' \<mapsto> 13.01, ''alpha_sat'' \<mapsto> 1.06,
              ''fconc'' \<mapsto> 1],
            threshold = Some (- 19.5) \<rparr>)"
    by (simp add: Zheng07_init_def published_parameters_def published_parameters_default
        logMmin_cen_array_def sigma_logM_array_def logM0_array_def logM1_array_def
        alpha_sat_array_def)
  show "snd (Zheng07_init None PyNone) = snd (Zheng07_init None (PyFloat (- 19.5)))"
    unfolding d
    by (simp add: Zheng07_init_def published_parameters_def published_parameters_default
        logMmin_cen_array_def sigma_logM_array_def logM0_array_def logM1_array_def
        alpha_sat_array_def)
next
  assume "real_of_int n \<notin> {- 18, - 18.5, - 19, - 19.5, - 20, - 20.5, - 21, - 21.5, - 22}"
  then show "Zheng07_init None (PyInt n) =
          ([], Inl (TypeError ''Input luminosity threshold does not match any of the Table 1 values of Zheng et al. 2007.''))"
    by (simp add: Zheng07_init_def published_parameters_def published_parameters_no_match)
next
  assume "x \<notin> {- 18, - 18.5, - 19, - 19.5, - 20, - 20.5, - 21, - 21.5, - 22}"
  then show "Zheng07_init None (PyFloat x) =
          ([], Inl (TypeError ''Input luminosity threshold does not match any of the Table 1 values of Zheng et al. 2007.''))"
    by (simp add: Zheng07_init_def published_parameters_def published_parameters_no_match)
next
  have "real_of_int (- 30) \<notin> {- 18, - 18.5, - 19, - 19.5, - 20, - 20.5, - 21, - 21.5, - 22}"
    by simp
  then show "Zheng07_init None (PyInt (- 30)) =
          ([], Inl (TypeError ''Input luminosity threshold does not match any of the Table 1 values of Zheng et al. 2007.''))"
    by (simp add: Zheng07_init_def published_parameters_def published_parameters_no_match)
next
  show "Zheng07_init None (PyStr s) =
          ([], Inl (TypeError ''Input luminosity threshold must be a scalar''))"
    by (simp add: Zheng07_init_def published_parameters_def)
  show "Zheng07_init None (Ndarray a) =
          ([], Inl (TypeError ''Input luminosity threshold must be a scalar''))"
    by (simp add: Zheng07_init_def published_parameters_def)
qed

text \<open>The lookup failure at the thresholds \<open>-25\<close> and \<open>-18.2\<close>.\<close>

theorem Zheng07_threshold_resolution_witness:
  "real_of_int (- 25) \<notin> {- 18, - 18.5, - 19, - 19.5, - 20, - 20.5, - 21, - 21.5, - 22 :: real}
   \<and> (- 18.2 :: real) \<notin> {- 18, - 18.5, - 19, - 19.5, - 20, - 20.5, - 21, - 21.5, - 22}
   \<and> Zheng07_init None (PyInt (- 25)) =
          ([], Inl (TypeError ''Input luminosity threshold does not match any of the Table 1 values of Zheng et al. 2007.''))
   \<and> Zheng07_init None (PyFloat (- 18.2)) =
          ([], Inl (TypeError ''Input luminosity threshold does not match any of the Table 1 values of Zheng et al. 2007.''))"
proof -
  have 1: "real_of_int (- 25) \<notin> {- 18, - 18.5, - 19, - 19.5, - 20, - 20.5, - 21, - 21.5, - 22 :: real}"
    by simp
  have 2: "(- 18.2 :: real) \<notin> {- 18, - 18.5, - 19, - 19.5, - 20, - 20.5, - 21, - 21.5, - 22}"
    by simp
  show ?thesis
    using 1 2 Zheng07_threshold_resolution[of "- 25" "- 18.2" "[]" "[]"] by blast
qed

lemma published_parameters_first:
  "t = - 18 \<Longrightarrow> np_where_eq threshold_array t = [0]"
  unfolding np_where_eq_threshold_array by simp

lemma Zheng07_init_threshold_18:
  "Zheng07_init None (PyInt (- 18)) =
     ([], Inr \<lparr> hod_model_nickname = ''Zheng07'', publication = ''arXiv:0703457'',
            parameter_dict = [''logMmin_cen'' \<mapsto> 11.35, ''sigma_logM'' \<mapsto> 0.25,
              ''logM0_sat'' \<mapsto> 11.2, ''logM1_sat'' \<mapsto> 12.4, ''alpha_sat'' \<mapsto> 0.83,
              ''fconc'' \<mapsto> 1],
            threshold = Some (- 18) \<rparr>)"
  by (simp add: Zheng07_init_def published_parameters_def published_parameters_first
      logMmin_cen_array_def sigma_logM_array_def logM0_array_def logM1_array_def
      alpha_sat_array_def)

text \<open>
  The bound at the instance built for the threshold \<open>-18\<close>, with \<open>tanh\<close> in the place of
  the error function.
\<close>

theorem mean_ncen_unit_interval_witness:
  "\<exists>self. snd (Zheng07_init None (PyInt (- 18))) = Inr self
     \<and> (\<forall>x. - 1 \<le> tanh x \<and> tanh x \<le> (1::real))
     \<and> parameter_dict self ''logMmin_cen'' = Some 11.35
     \<and> parameter_dict self ''sigma_logM'' = Some 0.25
     \<and> (0::real) < 0.25
     \<and> (\<exists>ys. mean_ncen tanh self (Ndarray [11.35, 14]) = Inr ys \<and> length ys = length [11.35, 14 :: real]
           \<and> (\<forall>i<length [11.35, 14 :: real].
                 ys ! i = 0.5 * (1 + tanh (([11.35, 14] ! i - 11.35) / 0.25)) \<and> 0 \<le> ys ! i \<and> ys ! i \<le> 1))"
proof -
  define self where "self = \<lparr> hod_model_nickname = ''Zheng07'', publication = ''arXiv:0703457'',
            parameter_dict = [''logMmin_cen'' \<mapsto> 11.35, ''sigma_logM'' \<mapsto> 0.25,
              ''logM0_sat'' \<mapsto> 11.2, ''logM1_sat'' \<mapsto> 12.4, ''alpha_sat'' \<mapsto> 0.83,
              ''fconc'' \<mapsto> (1::real)],
            threshold = Some (- 18) \<rparr>"
  have 0: "snd (Zheng07_init None (PyInt (- 18))) = Inr self"
    unfolding Zheng07_init_threshold_18 self_def by simp
  have e: "\<forall>x. - 1 \<le> tanh x \<and> tanh x \<le> (1::real)"
    using tanh_real_gt_neg1 tanh_real_lt_1 by (simp add: less_imp_le)
  have 1: "parameter_dict self ''logMmin_cen'' = Some 11.35" by (simp add: self_def)
  have 2: "parameter_dict self ''sigma_logM'' = Some 0.25" by (simp add: self_def)
  have 3: "(0::real) < 0.25" by simp
  show ?thesis
    using 0 e 1 2 3 mean_ncen_unit_interval[OF e 1 2 3, of "[11.35, 14]"] by blast
qed

text \<open>The same instance, for the satellite occupation of the masses \<open>[11, 12.4]\<close>.\<close>

theorem mean_nsat_elementwise_witness:
  "\<exists>self. snd (Zheng07_init None (PyInt (- 18))) = Inr self
     \<and> parameter_dict self ''logMmin_cen'' = Some 11.35
     \<and> parameter_dict self ''sigma_logM'' = Some 0.25
     \<and> parameter_dict self ''logM0_sat'' = Some 11.2
     \<and> parameter_dict self ''logM1_sat'' = Some 12.4
     \<and> parameter_dict self ''alpha_sat'' = Some 0.83
     \<and> (\<forall>x::real. - 1 < tanh x)
     \<and> (\<exists>ys nc. mean_nsat tanh self (Ndarray [11, 12.4]) = Inr ys
           \<and> mean_ncen tanh self (Ndarray [11, 12.4]) = Inr nc
           \<and> length ys = 2 \<and> length nc = 2
           \<and> (\<forall>i<2. ys ! i = (if 10 powr ([11, 12.4 :: real] ! i) - 10 powr 11.2 \<le> (0::real) then 0
                           else nc ! i * ((10 powr ([11, 12.4] ! i) - 10 powr 11.2) / 10 powr 12.4) powr 0.83))
           \<and> (\<forall>i<2. ys ! i = 0 \<longleftrightarrow> 10 powr ([11, 12.4 :: real] ! i) - 10 powr 11.2 \<le> (0::real)))"
proof -
  define self where "self = \<lparr> hod_model_nickname = ''Zheng07'', publication = ''arXiv:0703457'',
            parameter_dict = [''logMmin_cen'' \<mapsto> 11.35, ''sigma_logM'' \<mapsto> 0.25,
              ''logM0_sat'' \<mapsto> 11.2, ''logM1_sat'' \<mapsto> 12.4, ''alpha_sat'' \<mapsto> 0.83,
              ''fconc'' \<mapsto> (1::real)],
            threshold = Some (- 18) \<rparr>"
  have 0: "snd (Zheng07_init None (PyInt (- 18))) = Inr self"
    unfolding Zheng07_init_threshold_18 self_def by simp
  have e: "\<forall>x::real. - 1 < tanh x"
    using tanh_real_gt_neg1 by simp
  have 1: "parameter_dict self ''logMmin_cen'' = Some 11.35" by (simp add: self_def)
  have 2: "parameter_dict self ''sigma_logM'' = Some 0.25" by (simp add: self_def)
  have 3: "parameter_dict self ''logM0_sat'' = Some 11.2" by (simp add: self_def)
  have 4: "parameter_dict self ''logM1_sat'' = Some 12.4" by (simp add: self_def)
  have 5: "parameter_dict self ''alpha_sat'' = Some 0.83" by (simp add: self_def)
  have l: "length [11, 12.4 :: real] = 2" by simp
  show ?thesis
    using 0 e 1 2 3 4 5 mean_nsat_elementwise[OF 1 2 3 4 5, of tanh "[11, 12.4]"]
    unfolding l by blast
qed

section \<open>Properties of the radial profile model\<close>

lemma ln_lower_bound:
  fixes t :: real
  assumes "0 < t"
  shows "1 - 1 / t \<le> ln t"
proof -
  have "ln (1 / t) \<le> 1 / t - 1" using assms by (intro ln_le_minus_one) simp
  moreover have "ln (1 / t) = - ln t" using assms by (simp add: ln_div)
  ultimately show ?thesis by linarith
qed

lemma nfw_mass_strict_mono:
  fixes x y :: real
  assumes "0 < x" "x < y"
  shows "ln (1 + x) - x / (1 + x) < ln (1 + y) - y / (1 + y)"
proof -
  have px: "0 < 1 + x" and py: "0 < 1 + y" using assms by linarith+
  have "1 - 1 / ((1 + y) / (1 + x)) \<le> ln ((1 + y) / (1 + x))"
    using px py by (intro ln_lower_bound) simp
  moreover have "ln ((1 + y) / (1 + x)) = ln (1 + y) - ln (1 + x)"
    using px py by (simp add: ln_div)
  moreover have "1 - 1 / ((1 + y) / (1 + x)) = (y - x) / (1 + y)"
    using px py by (simp add: field_simps)
  ultimately have a: "(y - x) / (1 + y) \<le> ln (1 + y) - ln (1 + x)" by linarith
  have b: "y / (1 + y) - x / (1 + x) = ((y - x) / (1 + y)) / (1 + x)"
    using px py by (simp add: field_simps)
  define A where "A = (y - x) / (1 + y)"
  have A: "0 < A" unfolding A_def using assms py by simp
  have "0 < A * x" using A assms by simp
  then have "A < A * (1 + x)" by (simp add: algebra_simps)
  then have "A / (1 + x) < A" using px by (simp add: pos_divide_less_eq)
  with a b show ?thesis unfolding A_def by linarith
qed

lemma nfw_mass_nonneg:
  fixes x :: real
  assumes "0 \<le> x"
  shows "0 \<le> ln (1 + x) - x / (1 + x)"
proof -
  have "1 - 1 / (1 + x) \<le> ln (1 + x)" using assms by (intro ln_lower_bound) linarith
  moreover have "1 - 1 / (1 + x) = x / (1 + x)" using assms by (simp add: field_simps)
  ultimately show ?thesis by linarith
qed

lemma nfw_mass_pos:
  fixes x :: real
  assumes "0 < x"
  shows "0 < ln (1 + x) - x / (1 + x)"
proof -
  have "0 \<le> ln (1 + x / 2) - (x / 2) / (1 + x / 2)" using assms by (intro nfw_mass_nonneg) simp
  moreover have "ln (1 + x / 2) - (x / 2) / (1 + x / 2) < ln (1 + x) - x / (1 + x)"
    using assms by (intro nfw_mass_strict_mono) simp_all
  ultimately show ?thesis by linarith
qed

lemma cumulative_mass_PDF_ratio:
  "cumulative_mass_PDF r c = (ln (1 + r * c) - r * c / (1 + r * c)) / (ln (1 + c) - c / (1 + c))"
  by (simp add: cumulative_mass_PDF_def g_def Let_def)

text \<open>
  Claim C2. For a concentration \<open>c > 0\<close>: \<^verbatim>\<open>cumulative_mass_PDF(r, c)\<close> is \<open>g c / g (r * c)\<close>
  for \<open>r\<close> in \<open>(0, 1]\<close>; it is strictly increasing in \<open>r\<close> on \<open>(0, 1]\<close>; and its value at
  \<open>r = 1\<close> is exactly 1.
\<close>

theorem cumulative_mass_PDF_properties:
  assumes "0 < c"
  shows "(0 < r \<and> r \<le> 1 \<longrightarrow> cumulative_mass_PDF r c = g c / g (r * c))
       \<and> (0 < r1 \<and> r1 < r2 \<and> r2 \<le> 1 \<longrightarrow> cumulative_mass_PDF r1 c < cumulative_mass_PDF r2 c)
       \<and> cumulative_mass_PDF 1 c = 1"
proof (intro conjI impI)
  show "cumulative_mass_PDF r c = g c / g (r * c)" by (simp add: cumulative_mass_PDF_def)
next
  assume a: "0 < r1 \<and> r1 < r2 \<and> r2 \<le> 1"
  have "0 < r1 * c" "r1 * c < r2 * c" using a assms by simp_all
  then have "ln (1 + r1 * c) - r1 * c / (1 + r1 * c) < ln (1 + r2 * c) - r2 * c / (1 + r2 * c)"
    by (rule nfw_mass_strict_mono)
  moreover have "0 < ln (1 + c) - c / (1 + c)" using assms by (rule nfw_mass_pos)
  ultimately show "cumulative_mass_PDF r1 c < cumulative_mass_PDF r2 c"
    unfolding cumulative_mass_PDF_ratio by (simp add: divide_strict_right_mono)
next
  have "0 < ln (1 + c) - c / (1 + c)" using assms by (rule nfw_mass_pos)
  then show "cumulative_mass_PDF 1 c = 1"
    unfolding cumulative_mass_PDF_ratio by simp
qed

text \<open>The three properties at the concentration 5 and the radii 0.25 and 0.5.\<close>

theorem cumulative_mass_PDF_properties_witness:
  "(0::real) < 5
   \<and> cumulative_mass_PDF 0.5 5 = g 5 / g (0.5 * 5)
   \<and> (0 < (0.25::real) \<and> (0.25::real) < 0.5 \<and> (0.5::real) \<le> 1)
   \<and> cumulative_mass_PDF 0.25 5 < cumulative_mass_PDF 0.5 5
   \<and> cumulative_mass_PDF 1 5 = 1"
proof -
  have c: "(0::real) < 5" by simp
  have r: "0 < (0.25::real) \<and> (0.25::real) < 0.5 \<and> (0.5::real) \<le> 1" by simp
  have r': "0 < (0.5::real) \<and> (0.5::real) \<le> 1" by simp
  show ?thesis
    using c r r' cumulative_mass_PDF_properties[OF c, of "0.5" "0.25" "0.5"] by blast
qed

text \<open>
  Claim C9. For \<open>x\<close> in \<open>(0, 1)\<close> and \<open>c > 0\<close>, the module-level \<^verbatim>\<open>cumulative_NFW_PDF(x, c)\<close>,
  computed as \<open>(ln (1 + x * c) - x * c / (1 + x * c)) / (ln (1 + c) - c / (1 + c))\<close>, equals
  \<^verbatim>\<open>NFWProfile.cumulative_mass_PDF(x, c)\<close>, computed as \<open>g c / g (x * c)\<close>. Both
  denominators are positive there, so no quotient is taken by zero.
\<close>

theorem cumulative_NFW_PDF_agrees:
  assumes "0 < x" "x < 1" "0 < c"
  shows "0 < ln (1 + c) - c / (1 + c)
       \<and> 0 < ln (1 + x * c) - x * c / (1 + x * c)
       \<and> cumulative_NFW_PDF x c = (ln (1 + x * c) - x * c / (1 + x * c)) / (ln (1 + c) - c / (1 + c))
       \<and> cumulative_mass_PDF x c = g c / g (x * c)
       \<and> cumulative_NFW_PDF x c = cumulative_mass_PDF x c"
proof (intro conjI)
  show "0 < ln (1 + c) - c / (1 + c)" using assms(3) by (rule nfw_mass_pos)
  have "0 < x * c" using assms by simp
  then show "0 < ln (1 + x * c) - x * c / (1 + x * c)" by (rule nfw_mass_pos)
  show "cumulative_NFW_PDF x c = (ln (1 + x * c) - x * c / (1 + x * c)) / (ln (1 + c) - c / (1 + c))"
    by (simp add: cumulative_NFW_PDF_def Let_def)
  show "cumulative_mass_PDF x c = g c / g (x * c)" by (simp add: cumulative_mass_PDF_def)
  show "cumulative_NFW_PDF x c = cumulative_mass_PDF x c"
    unfolding cumulative_mass_PDF_ratio by (simp add: cumulative_NFW_PDF_def Let_def)
qed

text \<open>The two implementations at \<open>x = 0.5\<close> and \<open>c = 5\<close>.\<close>

theorem cumulative_NFW_PDF_agrees_witness:
  "(0::real) < 0.5 \<and> (0.5::real) < 1 \<and> (0::real) < 5
   \<and> cumulative_NFW_PDF 0.5 5 = cumulative_mass_PDF 0.5 5"
proof -
  have 1: "(0::real) < 0.5" and 2: "(0.5::real) < 1" and 3: "(0::real) < 5" by simp_all
  show ?thesis using 1 2 3 cumulative_NFW_PDF_agrees[OF 1 2 3] by blast
qed

lemma HaloProfileModel_init_any:
  "HaloProfileModel_init dv cosmo z = HaloProfileModel_init dv' cosmo z'"
  by (simp add: HaloProfileModel_init_def)

lemma NFWProfile_init_any:
  "NFWProfile_init dflt spline dv cosmo z b = NFWProfile_init dflt spline dv' cosmo z' b"
  by (simp add: NFWProfile_init_def HaloProfileModel_init_def)

lemma NFWProfile_init_fields:
  "delta_vir (NFWProfile_init dflt spline dv cosmo z b) = 360"
  "redshift (NFWProfile_init dflt spline dv cosmo z b) = 0"
  "cosmic_matter_density (NFWProfile_init dflt spline dv cosmo z b)
     = critical_density_Msun_Mpc3 cosmo 0 / (H0 cosmo / 100) ^ 2 * Om0 cosmo"
  by (simp_all add: NFWProfile_init_def HaloProfileModel_init_def build_inv_cumu_lookup_table_def
        Let_def HaloProfileModel.defs NFWProfile.defs)

text \<open>
  Claim C10. Whatever values are passed for \<^verbatim>\<open>delta_vir\<close> and \<^verbatim>\<open>redshift\<close>, the instance
  built by \<^verbatim>\<open>HaloProfileModel.__init__\<close> and by \<^verbatim>\<open>NFWProfile.__init__\<close> has
  \<open>delta_vir = 360\<close> and \<open>redshift = 0\<close>; the whole instance, and \<^verbatim>\<open>rho_s\<close> computed from
  it, are the same for any two choices of the two arguments.
\<close>

theorem NFWProfile_init_ignores_arguments:
  "NFWProfile_init dflt spline dv cosmo z b = NFWProfile_init dflt spline (360::real) cosmo (0::real) b
   \<and> delta_vir (NFWProfile_init dflt spline dv cosmo z b) = 360
   \<and> redshift (NFWProfile_init dflt spline dv cosmo z b) = 0
   \<and> delta_vir (HaloProfileModel_init dv cosmo z) = 360
   \<and> redshift (HaloProfileModel_init dv cosmo z) = 0
   \<and> HaloProfileModel_init dv cosmo z = HaloProfileModel_init dv' cosmo z'
   \<and> NFWProfile_init dflt spline dv cosmo z b = NFWProfile_init dflt spline dv' cosmo z' b
   \<and> rho_s (NFWProfile_init dflt spline dv cosmo z b) c
        = rho_s (NFWProfile_init dflt spline dv' cosmo z' b) c
   \<and> rho_s (NFWProfile_init dflt spline dv cosmo z b) c
        = (360 / 3) * c * c * c * g c
            * (critical_density_Msun_Mpc3 cosmo 0 / (H0 cosmo / 100) ^ 2 * Om0 cosmo)"
proof (intro conjI)
  show "NFWProfile_init dflt spline dv cosmo z b = NFWProfile_init dflt spline (360::real) cosmo (0::real) b"
    by (rule NFWProfile_init_any)
  show "delta_vir (NFWProfile_init dflt spline dv cosmo z b) = 360"
    by (rule NFWProfile_init_fields)
  show "redshift (NFWProfile_init dflt spline dv cosmo z b) = 0"
    by (rule NFWProfile_init_fields)
  show "delta_vir (HaloProfileModel_init dv cosmo z) = 360"
    by (simp add: HaloProfileModel_init_def)
  show "redshift (HaloProfileModel_init dv cosmo z) = 0"
    by (simp add: HaloProfileModel_init_def)
  show "HaloProfileModel_init dv cosmo z = HaloProfileModel_init dv' cosmo z'"
    by (rule HaloProfileModel_init_any)
  show "NFWProfile_init dflt spline dv cosmo z b = NFWProfile_init dflt spline dv' cosmo z' b"
    by (rule NFWProfile_init_any)
  show "rho_s (NFWProfile_init dflt spline dv cosmo z b) c
        = rho_s (NFWProfile_init dflt spline dv' cosmo z' b) c"
    by (simp only: rho_s_def NFWProfile_init_fields)
  show "rho_s (NFWProfile_init dflt spline dv cosmo z b) c
        = (360 / 3) * c * c * c * g c
            * (critical_density_Msun_Mpc3 cosmo 0 / (H0 cosmo / 100) ^ 2 * Om0 cosmo)"
    by (simp only: rho_s_def NFWProfile_init_fields)
qed

section \<open>Properties of the quenching model\<close>

lemma horner_sum: "horner cs x = (\<Sum>n<length cs. cs ! n * x ^ n)"
proof (induction cs)
  case Nil
  show ?case by simp
next
  case (Cons c cs)
  have "(\<Sum>n<Suc (length cs). (c # cs) ! n * x ^ n)
        = (c # cs) ! 0 * x ^ 0 + (\<Sum>n<length cs. (c # cs) ! Suc n * x ^ Suc n)"
    by (rule sum.lessThan_Suc_shift)
  also have "\<dots> = c + (\<Sum>n<length cs. x * (cs ! n * x ^ n))"
    by (simp add: mult_ac)
  also have "\<dots> = c + x * (\<Sum>n<length cs. cs ! n * x ^ n)"
    by (simp only: sum_distrib_left)
  finally show ?case using Cons.IH by simp
qed

lemma map2_map2_same:
  "map2 f (map2 h xs ys) ys = map2 (\<lambda>a x. f (h a x) x) xs ys"
proof (induction xs arbitrary: ys)
  case Nil
  show ?case by simp
next
  case (Cons a xs)
  show ?case by (cases ys) (simp_all add: Cons.IH)
qed

lemma map2_fst_same_length:
  "length xs = length ys \<Longrightarrow> map2 (\<lambda>a x. a) xs ys = xs"
  by (induction xs ys rule: list_induct2) simp_all

lemma quenching_loop:
  "length acc0 = length logM \<Longrightarrow>
   fold (\<lambda>(n, coeff) acc. map2 (\<lambda>a x. a + coeff * x ^ n) acc logM) (enumerate k cs) acc0
     = map2 (\<lambda>a x. a + x ^ k * horner cs x) acc0 logM"
proof (induction cs arbitrary: k acc0)
  case Nil
  then show ?case by (simp add: map2_fst_same_length)
next
  case (Cons c cs)
  have "length (map2 (\<lambda>a x. a + c * x ^ k) acc0 logM) = length logM"
    using Cons.prems by simp
  from Cons.IH[OF this, of "Suc k"] show ?case
    by (simp add: map2_map2_same algebra_simps)
qed

lemma quenching_loop_zeros:
  "fold (\<lambda>(n, coeff) acc. map2 (\<lambda>a x. a + coeff * x ^ n) acc logM) (enumerate 0 cs)
      (replicate (length logM) 0)
     = map (horner cs) logM"
proof -
  have "map2 (\<lambda>a x. a + x ^ 0 * horner cs x) (replicate (length logM) 0) logM = map (horner cs) logM"
    by (induction logM) simp_all
  then show ?thesis by (simp add: quenching_loop)
qed

lemma mask_put_clamp:
  "mask_put ys (map p ys) (replicate (length (filter p ys)) z)
     = map (\<lambda>v. if p v then z else v) ys"
proof (induction ys)
  case Nil
  show ?case by simp
next
  case (Cons y ys)
  show ?case
  proof (cases "p y")
    case True
    then show ?thesis using Cons.IH by simp
  next
    case False
    then show ?thesis using Cons.IH by simp
  qed
qed

lemma mask_assign_clamp:
  "mask_assign ys (map p ys) (replicate (length (filter id (map p ys))) z)
     = Inr (map (\<lambda>v. if p v then z else v) ys)"
proof -
  have "length (filter id (map p ys)) = length (filter p ys)"
    by (induction ys) simp_all
  then show ?thesis by (simp add: mask_assign_def Let_def mask_put_clamp)
qed

lemma quenching_polynomial_value:
  assumes "quenching_parameter_dict self ''logM_abcissa'' = Some abcissa"
  shows "quenching_polynomial self logM cs
     = Inr (map (\<lambda>x. if (if horner cs x < 0 then 0 else horner cs x) > 1 then 1
                      else (if horner cs x < 0 then 0 else horner cs x)) logM)"
proof -
  have g: "getitem (quenching_parameter_dict self) ''logM_abcissa'' = Inr abcissa"
    using assms by (simp add: getitem_def)
  show ?thesis
    by (simp only: quenching_polynomial_def Let_def g and_then.simps quenching_loop_zeros
        mask_assign_clamp map_map comp_def)
qed

lemma and_then_Inr: "and_then r f = Inr y \<longleftrightarrow> (\<exists>x. r = Inr x \<and> f x = Inr y)"
  by (cases r) simp_all

lemma vdB03_init_key:
  "vdB03_init solve dq pd = Inr self \<Longrightarrow> \<exists>a. quenching_parameter_dict self ''logM_abcissa'' = Some a"
  unfolding vdB03_init_def Let_def and_then_Inr getitem_def
  by (auto split: option.splits)

lemma fold_append_concat:
  "fold (\<lambda>i acc. acc @ f i) is acc0 = acc0 @ concat (map f is)"
  by (induction "is" arbitrary: acc0) simp_all

lemma quenching_columns:
  "fold (\<lambda>i columns. columns @ map (\<lambda>x. x ^ (i + 1)) xs) [0 ..< length xs - 1]
        (map (\<lambda>z. z + 1) (replicate (length xs) (0::real)))
     = concat (map (\<lambda>k. map (\<lambda>x. x ^ k) xs) [0 ..< length xs])"
proof (cases xs)
  case Nil
  then show ?thesis by simp
next
  case (Cons a as)
  have ones: "map (\<lambda>z. z + 1) (replicate (length xs) (0::real)) = map (\<lambda>x. x ^ 0) xs"
    by (simp add: map_replicate_const)
  have u: "[0 ..< length xs] = 0 # map Suc [0 ..< length xs - 1]"
    using Cons by (simp add: upt_conv_Cons map_Suc_upt del: upt_Suc)
  have "concat (map (\<lambda>k. map (\<lambda>x. x ^ k) xs) [0 ..< length xs])
      = map (\<lambda>x. x ^ 0) xs @ concat (map (\<lambda>i. map (\<lambda>x. x ^ (i + 1)) xs) [0 ..< length xs - 1])"
    by (subst u) (simp add: comp_def)
  then show ?thesis
    by (simp only: fold_append_concat ones)
qed

lemma length_concat_uniform:
  "(\<forall>r\<in>set xss. length r = c) \<Longrightarrow> length (concat xss) = length xss * c"
  by (induction xss) simp_all

lemma take_drop_concat_uniform:
  "(\<forall>r\<in>set xss. length r = c) \<Longrightarrow> i < length xss
     \<Longrightarrow> take c (drop (i * c) (concat xss)) = xss ! i"
proof (induction xss arbitrary: i)
  case Nil
  then show ?case by simp
next
  case (Cons r xss)
  show ?case
  proof (cases i)
    case 0
    then show ?thesis using Cons.prems by simp
  next
    case (Suc j)
    then show ?thesis using Cons.prems Cons.IH[of j] by simp
  qed
qed

lemma reshape_concat_uniform:
  assumes "\<forall>r\<in>set xss. length r = c" "length xss = n"
  shows "reshape (concat xss) n c = Inr xss"
proof -
  have "map (\<lambda>i. take c (drop (i * c) (concat xss))) [0 ..< n] = map (\<lambda>i. xss ! i) [0 ..< n]"
    using assms by (intro map_cong) (simp_all add: take_drop_concat_uniform)
  also have "\<dots> = xss" unfolding assms(2)[symmetric] by (rule map_nth)
  finally have m: "map (\<lambda>i. take c (drop (i * c) (concat xss))) [0 ..< n] = xss" .
  have l: "length (concat xss) = n * c"
    using length_concat_uniform[OF assms(1)] assms(2) by simp
  show ?thesis by (simp add: reshape_def l m)
qed

lemma ndarray_transpose_nonempty:
  "m \<noteq> [] \<Longrightarrow> ndarray_transpose m = map (\<lambda>j. map (\<lambda>row. row ! j) m) [0 ..< length (hd m)]"
  by (cases m) (simp_all add: ndarray_transpose_def)

lemma transpose_powers:
  "ndarray_transpose (map (\<lambda>k. map (\<lambda>x. x ^ k) xs) [0 ..< length xs])
     = map (\<lambda>x :: real. map (\<lambda>k. x ^ k) [0 ..< length xs]) xs"
proof (cases xs)
  case Nil
  then show ?thesis by (simp add: ndarray_transpose_def)
next
  case (Cons a as)
  define n where "n = length xs"
  define m where "m = map (\<lambda>k. map (\<lambda>x. x ^ k) xs) [0 ..< n]"
  have n: "0 < n" using Cons by (simp add: n_def)
  have ne: "m \<noteq> []" using n by (simp add: m_def)
  have "hd m = map (\<lambda>x. x ^ 0) xs" using n by (simp add: m_def hd_map hd_upt)
  then have h: "length (hd m) = n" by (simp add: n_def)
  have "ndarray_transpose m = map (\<lambda>j. map (\<lambda>row. row ! j) m) [0 ..< n]"
    using ndarray_transpose_nonempty[OF ne] h by simp
  also have "\<dots> = map (\<lambda>j. map (\<lambda>k. xs ! j ^ k) [0 ..< n]) [0 ..< n]"
    by (intro map_cong refl) (simp add: n_def m_def)
  also have "\<dots> = map (\<lambda>x. map (\<lambda>k. x ^ k) [0 ..< n]) (map (\<lambda>j. xs ! j) [0 ..< n])"
    by (simp add: comp_def)
  also have "map (\<lambda>j. xs ! j) [0 ..< n] = xs" unfolding n_def by (rule map_nth)
  finally show ?thesis by (simp add: n_def m_def)
qed

lemma quenching_model_matrix_vandermonde:
  "quenching_model_matrix xs = Inr (map (\<lambda>x. map (\<lambda>k. x ^ k) [0 ..< length xs]) xs)"
proof -
  have "reshape (concat (map (\<lambda>k. map (\<lambda>x. x ^ k) xs) [0 ..< length xs])) (length xs) (length xs)
      = Inr (map (\<lambda>k. map (\<lambda>x. x ^ k) xs) [0 ..< length xs])"
    by (rule reshape_concat_uniform) auto
  then show ?thesis
    by (simp only: quenching_model_matrix_def Let_def quenching_columns and_then.simps
        transpose_powers)
qed

lemma sum_list_powers:
  "sum_list (map2 (*) (map (\<lambda>k. x ^ (m + k)) [0 ..< length v]) v) = x ^ m * horner v x"
proof (induction v arbitrary: m)
  case Nil
  show ?case by simp
next
  case (Cons c cs)
  have u: "[0 ..< length (c # cs)] = 0 # map Suc [0 ..< length cs]"
    by (simp add: upt_conv_Cons map_Suc_upt del: upt_Suc)
  show ?case
    using Cons.IH[of "Suc m"] by (subst u) (simp add: comp_def algebra_simps)
qed

lemma mat_vec_vandermonde:
  "length v = length xs \<Longrightarrow>
   mat_vec (map (\<lambda>x. map (\<lambda>k. x ^ k) [0 ..< length xs]) xs) v = map (horner v) xs"
  using sum_list_powers[of _ 0 v] by (simp add: mat_vec_def comp_def)

lemma horner_synthetic_div:
  "horner p x = horner p a + (x - a) * horner (synthetic_div a p) x"
proof (induction a p rule: synthetic_div.induct)
  case (1 a)
  show ?case by simp
next
  case (2 a c)
  show ?case by simp
next
  case (3 a c d ds)
  have "horner (c # d # ds) x = c + x * horner (d # ds) x" by simp
  also have "\<dots> = c + x * (horner (d # ds) a + (x - a) * horner (synthetic_div a (d # ds)) x)"
    using "3.IH" by simp
  also have "\<dots> = (c + a * horner (d # ds) a)
      + (x - a) * (horner (d # ds) a + x * horner (synthetic_div a (d # ds)) x)"
    by (simp add: algebra_simps)
  finally show ?case by simp
qed

lemma length_synthetic_div: "length (synthetic_div a p) = length p - 1"
  by (induction a p rule: synthetic_div.induct) simp_all

lemma synthetic_div_zero:
  "(\<forall>q\<in>set (synthetic_div a p). q = 0) \<Longrightarrow> horner p a = 0 \<Longrightarrow> (\<forall>c\<in>set p. c = 0)"
proof (induction a p rule: synthetic_div.induct)
  case (1 a)
  show ?case by simp
next
  case (2 a c)
  then show ?case by simp
next
  case (3 a c d ds)
  have h: "horner (d # ds) a = 0" using "3.prems"(1) by simp
  have "\<forall>q\<in>set (synthetic_div a (d # ds)). q = 0" using "3.prems"(1) by simp
  then have t: "\<forall>c\<in>set (d # ds). c = 0" using h by (rule "3.IH")
  have "c = 0" using "3.prems"(2) h by simp
  with t show ?case by simp
qed

lemma distinct_roots_zero:
  "distinct xs \<Longrightarrow> length p \<le> length xs \<Longrightarrow> (\<forall>x\<in>set xs. horner p x = 0)
     \<Longrightarrow> (\<forall>c\<in>set p. c = 0)"
proof (induction xs arbitrary: p)
  case Nil
  then show ?case by simp
next
  case (Cons a xs)
  have pa: "horner p a = 0" using Cons.prems(3) by simp
  have q: "\<forall>x\<in>set xs. horner (synthetic_div a p) x = 0"
  proof
    fix x assume x: "x \<in> set xs"
    then have "x \<noteq> a" using Cons.prems(1) by auto
    moreover have "horner p x = 0" using x Cons.prems(3) by simp
    ultimately show "horner (synthetic_div a p) x = 0"
      using horner_synthetic_div[of p x a] pa by simp
  qed
  have "length (synthetic_div a p) \<le> length xs"
    using Cons.prems(2) by (simp add: length_synthetic_div)
  with Cons.prems(1) have "\<forall>c\<in>set (synthetic_div a p). c = 0"
    using q by (intro Cons.IH) simp_all
  then show ?case using pa by (rule synthetic_div_zero)
qed

lemma horner_times_linear: "horner (times_linear a p) x = (x - a) * horner p x"
proof (induction p)
  case Nil
  show ?case by simp
next
  case (Cons c cs)
  have "horner (case times_linear a cs of [] \<Rightarrow> [c] | r # rs \<Rightarrow> (c + r) # rs) x
      = c + horner (times_linear a cs) x"
    by (cases "times_linear a cs") simp_all
  then have "horner (times_linear a (c # cs)) x = - a * c + x * (c + horner (times_linear a cs) x)"
    by simp
  also have "\<dots> = - a * c + x * (c + (x - a) * horner cs x)"
    by (simp only: Cons.IH)
  also have "\<dots> = (x - a) * horner (c # cs) x"
    by (simp add: algebra_simps)
  finally show ?case .
qed

lemma length_times_linear: "p \<noteq> [] \<Longrightarrow> length (times_linear a p) = Suc (length p)"
proof (induction p)
  case Nil
  then show ?case by simp
next
  case (Cons c cs)
  show ?case
  proof (cases cs)
    case Nil
    then show ?thesis by simp
  next
    case (Cons d ds)
    then have "length (times_linear a cs) = Suc (length cs)" using Cons.IH by simp
    then show ?thesis by (cases "times_linear a cs") simp_all
  qed
qed

lemma last_times_linear: "p \<noteq> [] \<Longrightarrow> last (times_linear a p) = last p"
proof (induction p)
  case Nil
  then show ?case by simp
next
  case (Cons c cs)
  show ?case
  proof (cases cs)
    case Nil
    then show ?thesis by simp
  next
    case (Cons d ds)
    then have ne: "cs \<noteq> []" by simp
    have l: "length (times_linear a cs) = Suc (length cs)" using ne by (rule length_times_linear)
    have "last (times_linear a cs) = last cs" using ne by (rule Cons.IH)
    then show ?thesis using ne l
      by (cases "times_linear a cs") (auto split: if_splits)
  qed
qed

lemma root_polynomial_length:
  "foldr times_linear ds [1] \<noteq> [] \<and> length (foldr times_linear ds [1]) = Suc (length ds)"
proof (induction ds)
  case Nil
  show ?case by simp
next
  case (Cons d ds)
  then have "length (times_linear d (foldr times_linear ds [1])) = Suc (Suc (length ds))"
    by (simp add: length_times_linear)
  then show ?case by auto
qed

lemma root_polynomial_last: "last (foldr times_linear ds [1]) = 1"
proof (induction ds)
  case Nil
  show ?case by simp
next
  case (Cons d ds)
  have "foldr times_linear ds [1] \<noteq> []" using root_polynomial_length by blast
  then show ?case using Cons.IH by (simp add: last_times_linear)
qed

lemma root_polynomial_root:
  "x \<in> set ds \<Longrightarrow> horner (foldr times_linear ds [1]) x = 0"
  by (induction ds) (auto simp: horner_times_linear)

lemma horner_append_zeros: "horner (p @ replicate k 0) x = horner p x"
  by (induction p) (simp_all, induction k, simp_all)

lemma singular_vandermonde_iff:
  "singular (map (\<lambda>x. map (\<lambda>k. x ^ k) [0 ..< length xs]) xs)
     \<longleftrightarrow> (\<exists>v. length v = length xs \<and> v \<noteq> replicate (length xs) 0
                 \<and> (\<forall>x\<in>set xs. horner v x = 0))"
proof -
  have "map (horner v) xs = replicate (length xs) 0 \<longleftrightarrow> (\<forall>x\<in>set xs. horner v x = 0)" for v
    by (induction xs) auto
  then show ?thesis
    unfolding singular_def by (auto simp: mat_vec_vandermonde)
qed

lemma vandermonde_nonsingular:
  assumes "distinct xs"
  shows "\<not> singular (map (\<lambda>x. map (\<lambda>k. x ^ k) [0 ..< length xs]) xs)"
proof
  assume "singular (map (\<lambda>x. map (\<lambda>k. x ^ k) [0 ..< length xs]) xs)"
  then obtain v where v: "length v = length xs" "v \<noteq> replicate (length xs) 0"
      "\<forall>x\<in>set xs. horner v x = 0"
    unfolding singular_vandermonde_iff by blast
  have "\<forall>c\<in>set v. c = 0"
    using assms v(1,3) by (intro distinct_roots_zero[of xs]) simp_all
  then have "v = replicate (length v) 0"
    by (simp add: replicate_length_same)
  with v(1,2) show False by simp
qed

lemma vandermonde_singular:
  assumes "\<not> distinct xs"
  shows "singular (map (\<lambda>x. map (\<lambda>k. x ^ k) [0 ..< length xs]) xs)"
proof -
  define ds where "ds = remdups xs"
  define p where "p = foldr times_linear ds [1]"
  define v where "v = p @ replicate (length xs - length p) 0"
  have "length ds \<noteq> length xs"
    using assms unfolding ds_def by (simp add: length_remdups_eq remdups_id_iff_distinct)
  moreover have "length ds \<le> length xs" unfolding ds_def by (rule length_remdups_leq)
  ultimately have lt: "length ds < length xs" by simp
  have lp: "length p = Suc (length ds)" and ne: "p \<noteq> []"
    unfolding p_def using root_polynomial_length by blast+
  have lv: "length v = length xs" unfolding v_def using lp lt by simp
  have "last p = 1" unfolding p_def by (rule root_polynomial_last)
  then have "1 \<in> set p" using ne last_in_set by metis
  then have "1 \<in> set v" unfolding v_def by simp
  then have nz: "v \<noteq> replicate (length xs) 0" by auto
  have "\<forall>x\<in>set xs. horner v x = 0"
    unfolding v_def horner_append_zeros p_def
    by (simp add: root_polynomial_root ds_def)
  with lv nz show ?thesis unfolding singular_vandermonde_iff by blast
qed

lemma quenching_model_matrix_two:
  "quenching_model_matrix [a, b] = Inr [[1, a], [1, b]]"
proof -
  have "[0 ..< length [a, b]] = [0, 1]" by (simp add: upt_rec)
  then show ?thesis unfolding quenching_model_matrix_vandermonde by simp
qed

lemma vdB03_init_example:
  "vdB03_init cramer2 Map.empty
     (Some [''logM_abcissa'' \<mapsto> [12, 15], ''central_ordinates'' \<mapsto> [0.25, 0.95],
            ''satellite_ordinates'' \<mapsto> [0.5, 0.75]])
   = Inr \<lparr> quenching_model_nickname = ''vdB03'', quenching_publication = ''arXiv:0210495v3'',
        quenching_parameter_dict = [''logM_abcissa'' \<mapsto> [12, 15],
          ''central_ordinates'' \<mapsto> [0.25, 0.95], ''satellite_ordinates'' \<mapsto> [0.5, 0.75]],
        central_quenching_polynomial_coefficients = [- 2.55, 7 / 30],
        satellite_quenching_polynomial_coefficients = [- 0.5, 1 / 12] \<rparr>"
  by (simp add: vdB03_init_def getitem_def solve_for_quenching_polynomial_coefficients_def
      quenching_model_matrix_two cramer2_def)

text \<open>
  Claim C4. On an instance whose parameter set holds \<^verbatim>\<open>'logM_abcissa'\<close> (as every
  constructed instance does, \<open>vdB03_init_key\<close>), \<^verbatim>\<open>quenching_polynomial\<close> returns, for
  every \<open>logM\<close> and every coefficient sequence, an array of the length of \<open>logM\<close> whose
  element \<open>i\<close> is the polynomial value at \<open>logM ! i\<close> set to 0 when below 0 and to 1 when
  above 1, hence lies in \<open>[0, 1]\<close>; so do the elements returned by
  \<^verbatim>\<open>mean_quenched_fraction_centrals\<close> and \<^verbatim>\<open>mean_quenched_fraction_satellites\<close>.
\<close>

theorem quenching_polynomial_clamped:
  assumes "quenching_parameter_dict self ''logM_abcissa'' = Some abcissa"
  shows "\<exists>ys yc ysat. quenching_polynomial self logM coefficients = Inr ys
       \<and> length ys = length logM
       \<and> (\<forall>i<length logM. 0 \<le> ys ! i \<and> ys ! i \<le> 1
             \<and> ys ! i = (let raw = (\<Sum>n<length coefficients. coefficients ! n * (logM ! i) ^ n)
                         in if raw < 0 then 0 else if raw > 1 then 1 else raw))
       \<and> mean_quenched_fraction_centrals self logM = Inr yc \<and> length yc = length logM
       \<and> (\<forall>i<length logM. 0 \<le> yc ! i \<and> yc ! i \<le> 1)
       \<and> mean_quenched_fraction_satellites self logM = Inr ysat \<and> length ysat = length logM
       \<and> (\<forall>i<length logM. 0 \<le> ysat ! i \<and> ysat ! i \<le> 1)"
proof -
  let ?q = "\<lambda>cs. map (\<lambda>x. if (if horner cs x < 0 then 0 else horner cs x) > 1 then 1
                      else (if horner cs x < 0 then 0 else horner cs x)) logM"
  have b: "\<forall>i<length logM. 0 \<le> ?q cs ! i \<and> ?q cs ! i \<le> 1" for cs
    by simp
  have v: "\<forall>i<length logM. ?q coefficients ! i
      = (let raw = (\<Sum>n<length coefficients. coefficients ! n * (logM ! i) ^ n)
         in if raw < 0 then 0 else if raw > 1 then 1 else raw)"
    by (simp add: Let_def horner_sum[symmetric])
  have 1: "quenching_polynomial self logM coefficients = Inr (?q coefficients)"
    by (rule quenching_polynomial_value[OF assms])
  have 2: "mean_quenched_fraction_centrals self logM
         = Inr (?q (central_quenching_polynomial_coefficients self))"
    unfolding mean_quenched_fraction_centrals_def Let_def by (rule quenching_polynomial_value[OF assms])
  have 3: "mean_quenched_fraction_satellites self logM
         = Inr (?q (satellite_quenching_polynomial_coefficients self))"
    unfolding mean_quenched_fraction_satellites_def Let_def by (rule quenching_polynomial_value[OF assms])
  show ?thesis
  proof (intro exI conjI)
    show "quenching_polynomial self logM coefficients = Inr (?q coefficients)" by (rule 1)
    show "length (?q coefficients) = length logM" by simp
    show "\<forall>i<length logM. 0 \<le> ?q coefficients ! i \<and> ?q coefficients ! i \<le> 1
             \<and> ?q coefficients ! i = (let raw = (\<Sum>n<length coefficients. coefficients ! n * (logM ! i) ^ n)
                         in if raw < 0 then 0 else if raw > 1 then 1 else raw)"
      using v b[of coefficients] by blast
    show "mean_quenched_fraction_centrals self logM
         = Inr (?q (central_quenching_polynomial_coefficients self))" by (rule 2)
    show "length (?q (central_quenching_polynomial_coefficients self)) = length logM" by simp
    show "\<forall>i<length logM. 0 \<le> ?q (central_quenching_polynomial_coefficients self) ! i
            \<and> ?q (central_quenching_polynomial_coefficients self) ! i \<le> 1" by (rule b)
    show "mean_quenched_fraction_satellites self logM
         = Inr (?q (satellite_quenching_polynomial_coefficients self))" by (rule 3)
    show "length (?q (satellite_quenching_polynomial_coefficients self)) = length logM" by simp
    show "\<forall>i<length logM. 0 \<le> ?q (satellite_quenching_polynomial_coefficients self) ! i
            \<and> ?q (satellite_quenching_polynomial_coefficients self) ! i \<le> 1" by (rule b)
  qed
qed

text \<open>
  The instance built from the control points \<open>(12, 0.25)\<close>, \<open>(15, 0.95)\<close>: the polynomial
  undershoots at 9 and overshoots at 18, and both values are clamped.
\<close>

theorem quenching_polynomial_clamped_witness:
  "vdB03_init cramer2 Map.empty
     (Some [''logM_abcissa'' \<mapsto> [12, 15], ''central_ordinates'' \<mapsto> [0.25, 0.95],
            ''satellite_ordinates'' \<mapsto> [0.5, 0.75]])
     = Inr \<lparr> quenching_model_nickname = ''vdB03'', quenching_publication = ''arXiv:0210495v3'',
          quenching_parameter_dict = [''logM_abcissa'' \<mapsto> [12, 15],
            ''central_ordinates'' \<mapsto> [0.25, 0.95], ''satellite_ordinates'' \<mapsto> [0.5, 0.75]],
          central_quenching_polynomial_coefficients = [- 2.55, 7 / 30],
          satellite_quenching_polynomial_coefficients = [- 0.5, 1 / 12] \<rparr>
   \<and> quenching_parameter_dict
      \<lparr> quenching_model_nickname = ''vdB03'', quenching_publication = ''arXiv:0210495v3'',
        quenching_parameter_dict = [''logM_abcissa'' \<mapsto> [12, 15],
          ''central_ordinates'' \<mapsto> [0.25, 0.95], ''satellite_ordinates'' \<mapsto> [0.5, 0.75]],
        central_quenching_polynomial_coefficients = [- 2.55, 7 / 30],
        satellite_quenching_polynomial_coefficients = [- 0.5, 1 / 12] \<rparr> ''logM_abcissa''
     = Some [12, 15]
   \<and> quenching_polynomial
        \<lparr> quenching_model_nickname = ''vdB03'', quenching_publication = ''arXiv:0210495v3'',
          quenching_parameter_dict = [''logM_abcissa'' \<mapsto> [12, 15],
            ''central_ordinates'' \<mapsto> [0.25, 0.95], ''satellite_ordinates'' \<mapsto> [0.5, 0.75]],
          central_quenching_polynomial_coefficients = [- 2.55, 7 / 30],
          satellite_quenching_polynomial_coefficients = [- 0.5, 1 / 12] \<rparr>
        [9, 12, 18] [- 2.55, 7 / 30]
     = Inr [0, 0.25, 1]"
proof -
  define self where "self =
      \<lparr> quenching_model_nickname = ''vdB03'', quenching_publication = ''arXiv:0210495v3'',
        quenching_parameter_dict = [''logM_abcissa'' \<mapsto> [12, 15 :: real],
          ''central_ordinates'' \<mapsto> [0.25, 0.95], ''satellite_ordinates'' \<mapsto> [0.5, 0.75]],
        central_quenching_polynomial_coefficients = [- 2.55, 7 / 30 :: real],
        satellite_quenching_polynomial_coefficients = [- 0.5, 1 / 12 :: real] \<rparr>"
  have 0: "vdB03_init cramer2 Map.empty
     (Some [''logM_abcissa'' \<mapsto> [12, 15], ''central_ordinates'' \<mapsto> [0.25, 0.95],
            ''satellite_ordinates'' \<mapsto> [0.5, 0.75]]) = Inr self"
    unfolding self_def by (rule vdB03_init_example)
  have 1: "quenching_parameter_dict self ''logM_abcissa'' = Some [12, 15]"
    by (simp add: self_def)
  obtain ys where ys: "quenching_polynomial self [9, 12, 18] [- 2.55, 7 / 30] = Inr ys"
    "length ys = length [9, 12, 18 :: real]"
    "\<forall>i<length [9, 12, 18 :: real]. 0 \<le> ys ! i \<and> ys ! i \<le> 1
             \<and> ys ! i = (let raw = (\<Sum>n<length [- 2.55, 7 / 30 :: real]. [- 2.55, 7 / 30] ! n * ([9, 12, 18] ! i) ^ n)
                         in if raw < 0 then 0 else if raw > 1 then 1 else raw)"
    using quenching_polynomial_clamped[OF 1, of "[9, 12, 18]" "[- 2.55, 7 / 30]"] by blast
  have l: "length ys = 3" using ys(2) by simp
  have s: "(\<Sum>n<length [- 2.55, 7 / 30 :: real]. [- 2.55, 7 / 30] ! n * x ^ n) = - 2.55 + 7 / 30 * x" for x :: real
    by (simp add: lessThan_Suc numeral_2_eq_2)
  have e: "ys ! i = [0, 0.25, 1] ! i" if "i < 3" for i
  proof -
    have "i = 0 \<or> i = 1 \<or> i = 2" using that by auto
    moreover have "ys ! 0 = 0" "ys ! 1 = 0.25" "ys ! 2 = 1"
      using ys(3) unfolding s by (simp_all add: Let_def)
    ultimately show ?thesis by auto
  qed
  have "ys = [0, 0.25, 1]"
    by (rule nth_equalityI) (simp_all add: l e)
  then show ?thesis using 0 1 ys(1) unfolding self_def by simp
qed

text \<open>
  Claim C5. For pairwise distinct abscissas and as many ordinates, when
  \<^verbatim>\<open>np.linalg.solve\<close> meets its contract on the call made,
  \<^verbatim>\<open>solve_for_quenching_polynomial_coefficients\<close> builds the \<open>N \<times> N\<close> Vandermonde matrix
  (entry \<open>(i, j)\<close> is abscissa \<open>i\<close> to the power \<open>j\<close>) and returns \<open>N\<close> coefficients whose
  polynomial takes, at every abscissa, exactly the ordinate given for it.
\<close>

theorem solve_for_quenching_polynomial_coefficients_interpolates:
  assumes "distinct logM_abcissa"
    and "length quenched_fractions = length logM_abcissa"
    and "quenching_model_matrix logM_abcissa = Inr m"
    and "linalg_solve_contract solve m quenched_fractions"
  shows "\<exists>coeff. length m = length logM_abcissa
       \<and> (\<forall>i<length logM_abcissa. length (m ! i) = length logM_abcissa
             \<and> (\<forall>j<length logM_abcissa. m ! i ! j = (logM_abcissa ! i) ^ j))
       \<and> solve_for_quenching_polynomial_coefficients solve logM_abcissa quenched_fractions
            = Inr coeff
       \<and> length coeff = length logM_abcissa
       \<and> (\<forall>i<length logM_abcissa.
             (\<Sum>n<length logM_abcissa. coeff ! n * (logM_abcissa ! i) ^ n)
               = quenched_fractions ! i)"
proof -
  let ?m = "map (\<lambda>x. map (\<lambda>k. x ^ k) [0 ..< length logM_abcissa]) logM_abcissa"
  have m: "quenching_model_matrix logM_abcissa = Inr ?m"
    by (rule quenching_model_matrix_vandermonde)
  have mm: "m = ?m" using assms(3) m by simp
  have "linalg_solve_contract solve ?m quenched_fractions"
    using assms(4) mm by simp
  moreover have "\<not> singular ?m" using assms(1) by (rule vandermonde_nonsingular)
  ultimately obtain coeff where c: "solve ?m quenched_fractions = Inr coeff"
      "length coeff = length ?m" "mat_vec ?m coeff = quenched_fractions"
    unfolding linalg_solve_contract_def by auto
  have lc: "length coeff = length logM_abcissa" using c(2) by simp
  have "map (horner coeff) logM_abcissa = quenched_fractions"
    using c(3) lc by (simp add: mat_vec_vandermonde)
  then have "\<forall>i<length logM_abcissa. horner coeff (logM_abcissa ! i) = quenched_fractions ! i"
    by (metis nth_map)
  then have i: "\<forall>i<length logM_abcissa.
             (\<Sum>n<length logM_abcissa. coeff ! n * (logM_abcissa ! i) ^ n)
               = quenched_fractions ! i"
    by (simp add: horner_sum lc)
  have s: "solve_for_quenching_polynomial_coefficients solve logM_abcissa quenched_fractions
            = Inr coeff"
    by (simp add: solve_for_quenching_polynomial_coefficients_def m c(1))
  show ?thesis
  proof (intro exI conjI)
    show "length m = length logM_abcissa" unfolding mm by simp
    show "\<forall>i<length logM_abcissa. length (m ! i) = length logM_abcissa
             \<and> (\<forall>j<length logM_abcissa. m ! i ! j = (logM_abcissa ! i) ^ j)"
      unfolding mm by simp
    show "solve_for_quenching_polynomial_coefficients solve logM_abcissa quenched_fractions
            = Inr coeff" by (rule s)
    show "length coeff = length logM_abcissa" by (rule lc)
    show "\<forall>i<length logM_abcissa.
             (\<Sum>n<length logM_abcissa. coeff ! n * (logM_abcissa ! i) ^ n)
               = quenched_fractions ! i" by (rule i)
  qed
qed

text \<open>The interpolation through \<open>(12, 0.25)\<close> and \<open>(15, 0.95)\<close>, solved by Cramer's rule.\<close>

theorem solve_for_quenching_polynomial_coefficients_interpolates_witness:
  "distinct [12, 15 :: real]
   \<and> length [0.25, 0.95 :: real] = length [12, 15 :: real]
   \<and> quenching_model_matrix [12, 15] = Inr [[1, 12], [1, 15]]
   \<and> linalg_solve_contract cramer2 [[1, 12], [1, 15]] [0.25, 0.95]
   \<and> (\<exists>coeff. length [[1, 12], [1, 15 :: real]] = length [12, 15 :: real]
       \<and> (\<forall>i<length [12, 15 :: real]. length ([[1, 12], [1, 15 :: real]] ! i) = length [12, 15 :: real]
             \<and> (\<forall>j<length [12, 15 :: real]. [[1, 12], [1, 15 :: real]] ! i ! j = ([12, 15] ! i) ^ j))
       \<and> solve_for_quenching_polynomial_coefficients cramer2 [12, 15] [0.25, 0.95]
            = Inr coeff
       \<and> length coeff = length [12, 15 :: real]
       \<and> (\<forall>i<length [12, 15 :: real].
             (\<Sum>n<length [12, 15 :: real]. coeff ! n * ([12, 15] ! i) ^ n)
               = [0.25, 0.95] ! i))"
proof -
  have 1: "distinct [12, 15 :: real]" by simp
  have 2: "length [0.25, 0.95 :: real] = length [12, 15 :: real]" by simp
  have 3: "quenching_model_matrix [12, 15] = Inr [[1, 12], [1, 15]]"
    by (rule quenching_model_matrix_two)
  have ns: "\<not> singular [[1, 12], [1, 15 :: real]]"
    using vandermonde_nonsingular[OF 1] 3
    unfolding quenching_model_matrix_vandermonde by simp
  have 4: "linalg_solve_contract cramer2 [[1, 12], [1, 15]] [0.25, 0.95]"
    unfolding linalg_solve_contract_def using ns
    by (simp add: cramer2_def mat_vec_def)
  show ?thesis
    using solve_for_quenching_polynomial_coefficients_interpolates[OF 1 2 3 4]
    by (intro conjI 1 2 3 4)
qed

text \<open>
  Claim C7. When an abscissa is repeated, the matrix built is singular, so a
  \<^verbatim>\<open>np.linalg.solve\<close> that meets its contract raises \<^verbatim>\<open>LinAlgError\<close>;
  \<^verbatim>\<open>solve_for_quenching_polynomial_coefficients\<close> returns that error and no coefficients,
  and the constructor of the model passes it on to its caller.
\<close>

theorem solve_for_quenching_polynomial_coefficients_singular:
  assumes "\<not> distinct logM_abcissa"
    and "length quenched_fractions = length logM_abcissa"
    and "quenching_model_matrix logM_abcissa = Inr m"
    and "linalg_solve_contract solve m quenched_fractions"
  shows "singular m
       \<and> solve_for_quenching_polynomial_coefficients solve logM_abcissa quenched_fractions
            = Inl (LinAlgError ''Singular matrix'')
       \<and> (pd ''logM_abcissa'' = Some logM_abcissa \<and> pd ''central_ordinates'' = Some quenched_fractions
            \<longrightarrow> vdB03_init solve dq (Some pd) = Inl (LinAlgError ''Singular matrix''))"
proof -
  let ?m = "map (\<lambda>x. map (\<lambda>k. x ^ k) [0 ..< length logM_abcissa]) logM_abcissa"
  have m: "quenching_model_matrix logM_abcissa = Inr ?m"
    by (rule quenching_model_matrix_vandermonde)
  have mm: "m = ?m" using assms(3) m by simp
  have sg: "singular ?m" using assms(1) by (rule vandermonde_singular)
  have "linalg_solve_contract solve ?m quenched_fractions"
    using assms(4) mm by simp
  then have c: "solve ?m quenched_fractions = Inl (LinAlgError ''Singular matrix'')"
    using sg unfolding linalg_solve_contract_def by simp
  have s: "solve_for_quenching_polynomial_coefficients solve logM_abcissa quenched_fractions
            = Inl (LinAlgError ''Singular matrix'')"
    by (simp add: solve_for_quenching_polynomial_coefficients_def m c)
  have i: "pd ''logM_abcissa'' = Some logM_abcissa \<and> pd ''central_ordinates'' = Some quenched_fractions
            \<longrightarrow> vdB03_init solve dq (Some pd) = Inl (LinAlgError ''Singular matrix'')"
    by (simp add: vdB03_init_def getitem_def s)
  show ?thesis
    using sg s i unfolding mm by blast
qed

text \<open>The abscissas \<open>[12, 12]\<close>: the solver fails and so does the construction.\<close>

theorem solve_for_quenching_polynomial_coefficients_singular_witness:
  "\<not> distinct [12, 12 :: real]
   \<and> length [0.25, 0.95 :: real] = length [12, 12 :: real]
   \<and> quenching_model_matrix [12, 12] = Inr [[1, 12], [1, 12]]
   \<and> linalg_solve_contract cramer2 [[1, 12], [1, 12]] [0.25, 0.95]
   \<and> singular [[1, 12], [1, 12]]
   \<and> solve_for_quenching_polynomial_coefficients cramer2 [12, 12] [0.25, 0.95]
            = Inl (LinAlgError ''Singular matrix'')
   \<and> vdB03_init cramer2 Map.empty
         (Some [''logM_abcissa'' \<mapsto> [12, 12], ''central_ordinates'' \<mapsto> [0.25, 0.95],
                ''satellite_ordinates'' \<mapsto> [0.5, 0.75]])
       = Inl (LinAlgError ''Singular matrix'')"
proof -
  have 1: "\<not> distinct [12, 12 :: real]" by simp
  have 2: "length [0.25, 0.95 :: real] = length [12, 12 :: real]" by simp
  have 3: "quenching_model_matrix [12, 12] = Inr [[1, 12], [1, 12]]"
    by (rule quenching_model_matrix_two)
  have sg: "singular [[1, 12], [1, 12 :: real]]"
    using vandermonde_singular[OF 1] 3
    unfolding quenching_model_matrix_vandermonde by simp
  have 4: "linalg_solve_contract cramer2 [[1, 12], [1, 12]] [0.25, 0.95]"
    unfolding linalg_solve_contract_def using sg
    by (simp add: cramer2_def)
  define pd :: "string \<rightharpoonup> real list" where
    "pd = [''logM_abcissa'' \<mapsto> [12, 12], ''central_ordinates'' \<mapsto> [0.25, 0.95],
           ''satellite_ordinates'' \<mapsto> [0.5, 0.75]]"
  have k: "pd ''logM_abcissa'' = Some [12, 12] \<and> pd ''central_ordinates'' = Some [0.25, 0.95]"
    by (simp add: pd_def)
  have "vdB03_init cramer2 Map.empty (Some pd) = Inl (LinAlgError ''Singular matrix'')"
    using solve_for_quenching_polynomial_coefficients_singular[OF 1 2 3 4, of pd Map.empty] k
    by blast
  then show ?thesis
    using solve_for_quenching_polynomial_coefficients_singular[OF 1 2 3 4, of pd Map.empty] 1 2 3 4
    unfolding pd_def by blast
qed

end
